theory Spec2Isabelle
  imports Main "HOL-Library.Word" "HOL-Library.Log_Nat"
begin

unbundle bit_operations_syntax

section \<open>JavaScript values used by the interpreter\<close>

text \<open>
  A JavaScript \<open>bigint\<close> is an unbounded integer: it is modelled by \<open>int\<close>.  On
  \<open>bigint\<close> the operators \<open>&\<close>, \<open>|\<close>, \<open>^\<close>, \<open>~\<close> work on the infinite two's
  complement representation, exactly as \<open>AND\<close>, \<open>OR\<close>, \<open>XOR\<close>, \<open>NOT\<close> do on \<open>int\<close>;
  \<open><<\<close> is \<open>push_bit\<close> and \<open>>>\<close> is \<open>drop_bit\<close>.  Division truncates towards zero and
  the remainder takes the sign of the dividend.

  An element of a \<open>Uint8Array\<close> is a \<open>byte\<close>.  A JavaScript \<open>number\<close> is a double; the
  interpreter only ever holds integer-valued doubles, which are modelled by the integer
  they denote (\<open>js_number\<close>).  Counters that stay far below \<open>2^53\<close> (the program counter,
  array lengths and indices, event indices) are \<open>nat\<close>.
\<close>

type_synonym bigint = int
type_synonym js_number = int
type_synonym byte = "8 word"

definition bigint_div :: "bigint \<Rightarrow> bigint \<Rightarrow> bigint" where
  "bigint_div a b = sgn a * sgn b * (\<bar>a\<bar> div \<bar>b\<bar>)"


text \<open>
  Rounding an integer to the nearest double (ties to even), for magnitudes below
  \<open>2^1024\<close>: integers of at most 53 bits are exact, a longer one keeps its 53 leading bits.
  \<open>Number(b)\<close> of a bigint \<open>b\<close> and the sum of two integer-valued doubles are both
  correctly rounded.
\<close>

definition round_to_double :: "int \<Rightarrow> js_number" where
  "round_to_double v =
     (let a = \<bar>v\<bar>; n = bitlen a in
      if n \<le> 53 then v
      else let e = nat (n - 53); q = a div 2 ^ e; r = a mod 2 ^ e; h = 2 ^ (e - 1) in
           sgn v * ((if h < r \<or> (r = h \<and> odd q) then q + 1 else q) * 2 ^ e))"

definition Number_of_bigint :: "bigint \<Rightarrow> js_number" where
  "Number_of_bigint b = round_to_double b"

definition num_add :: "js_number \<Rightarrow> js_number \<Rightarrow> js_number" where
  "num_add a b = round_to_double (a + b)"

text \<open>\<open>toString(radix)\<close> of a non-negative integer, \<open>padStart\<close>, \<open>includes\<close>, \<open>startsWith\<close>.\<close>

definition digit_char :: "nat \<Rightarrow> char" where
  "digit_char d = ''0123456789abcdef'' ! d"

function nat_toString :: "nat \<Rightarrow> nat \<Rightarrow> string" where
  "nat_toString radix n =
     (if radix < 2 \<or> n < radix then [digit_char n]
      else nat_toString radix (n div radix) @ [digit_char (n mod radix)])"
  by pat_completeness auto
termination
  by (relation "measure snd") auto

declare nat_toString.simps [simp del]

definition bigint_toString :: "nat \<Rightarrow> bigint \<Rightarrow> string" where
  "bigint_toString radix v =
     (if v < 0 then CHR ''-'' # nat_toString radix (nat (- v)) else nat_toString radix (nat v))"

definition padStart :: "nat \<Rightarrow> char \<Rightarrow> string \<Rightarrow> string" where
  "padStart n c s = replicate (n - length s) c @ s"

definition startsWith :: "string \<Rightarrow> string \<Rightarrow> bool" where
  "startsWith s p = (take (length p) s = p)"

fun string_includes :: "string \<Rightarrow> string \<Rightarrow> bool" where
  "string_includes [] p = (p = [])"
| "string_includes (c # cs) p = (startsWith (c # cs) p \<or> string_includes cs p)"

text \<open>The regular expression \<open>/^[0-9a-fA-F]*$/\<close> and \<open>BigInt('0x' + s)\<close> on a string it accepts.\<close>

definition is_hex_char :: "char \<Rightarrow> bool" where
  "is_hex_char c =
     (let n = (of_char c :: nat) in (48 \<le> n \<and> n \<le> 57) \<or> (97 \<le> n \<and> n \<le> 102) \<or> (65 \<le> n \<and> n \<le> 70))"

definition hex_digit_value :: "char \<Rightarrow> nat" where
  "hex_digit_value c =
     (let n = (of_char c :: nat) in
      if n \<le> 57 then n - 48 else if 97 \<le> n then n - 87 else n - 55)"

definition BigInt_of_hex :: "string \<Rightarrow> bigint" where
  "BigInt_of_hex s = foldl (\<lambda>acc c. acc * 16 + int (hex_digit_value c)) 0 s"

text \<open>\<open>BigInt(s)\<close> on a string of decimal digits.\<close>

definition BigInt_of_decimal :: "string \<Rightarrow> bigint" where
  "BigInt_of_decimal s = foldl (\<lambda>acc c. acc * 10 + int (hex_digit_value c)) 0 s"

text \<open>
  The exceptions of the program: \<open>StackError\<close> (state/Stack.ts), the plain \<open>Error\<close>s thrown
  by \<open>chargeGas\<close> and the constructors, and the \<open>TypeError\<close> and \<open>RangeError\<close> of the
  language itself.  Each carries its message.
\<close>

datatype JsError = StackError string | Error string | TypeError string | RangeError string

fun message :: "JsError \<Rightarrow> string" where
  "message (StackError m) = m"
| "message (Error m) = m"
| "message (TypeError m) = m"
| "message (RangeError m) = m"

fun instanceof_StackError :: "JsError \<Rightarrow> bool" where
  "instanceof_StackError (StackError m) = True"
| "instanceof_StackError _ = False"

text \<open>
  The longest \<open>Uint8Array\<close> the language allows (\<open>ToIndex\<close> raises a \<open>RangeError\<close> above
  \<open>2^53 - 1\<close>); an engine may refuse a shorter one.
\<close>

definition MAX_TYPED_ARRAY_LENGTH :: js_number where
  "MAX_TYPED_ARRAY_LENGTH = 2 ^ 53 - 1"

section \<open>Word256 (types/Word256.ts)\<close>

text \<open>
  The class has one field, \<open>value: bigint\<close>, and a private constructor that masks its
  argument, so a \<open>Word256\<close> is represented by its \<open>value\<close>.  Every word of the program
  is built by \<open>Word256_new\<close> (through \<open>Word256_from\<close> and the other static constructors).
\<close>

type_synonym Word256 = bigint

definition MAX_UINT256 :: bigint where
  "MAX_UINT256 = push_bit 256 1 - 1"

definition Word256_new :: "bigint \<Rightarrow> Word256" where
  "Word256_new v = v AND MAX_UINT256"

definition Word256_from :: "bigint \<Rightarrow> Word256" where
  "Word256_from v = Word256_new v"

definition Word256_zero :: Word256 where
  "Word256_zero = Word256_new 0"



definition Word256_fromHex :: "string \<Rightarrow> JsError + Word256" where
  "Word256_fromHex hex =
     (let cleaned = (if startsWith hex ''0x'' then drop 2 hex else hex) in
      if \<not> list_all is_hex_char cleaned then Inl (Error (''Invalid hex string: '' @ hex))
      else Inr (Word256_new (if cleaned = [] then 0 else BigInt_of_hex cleaned)))"

definition Word256_fromBytes :: "byte list \<Rightarrow> JsError + Word256" where
  "Word256_fromBytes bytes =
     (if length bytes > 32
      then Inl (Error (''Byte array too long: '' @ nat_toString 10 (length bytes) @ '' > 32''))
      else Inr (Word256_new (foldl (\<lambda>v b. push_bit 8 v OR uint b) 0 bytes)))"

definition toHex :: "Word256 \<Rightarrow> string" where
  "toHex this = padStart 64 CHR ''0'' (bigint_toString 16 this)"

definition toHexWith0x :: "Word256 \<Rightarrow> string" where
  "toHexWith0x this = ''0x'' @ toHex this"

text \<open>The loop of \<open>toBytes\<close>: \<open>for (let i = 31; i >= 0; i--)\<close>, with \<open>n = i + 1\<close>.\<close>

fun toBytes_loop :: "nat \<Rightarrow> bigint \<Rightarrow> byte list \<Rightarrow> byte list" where
  "toBytes_loop 0 val bytes = bytes"
| "toBytes_loop (Suc i) val bytes =
     toBytes_loop i (drop_bit 8 val) (bytes[i := word_of_int (val AND 255)])"

definition toBytes :: "Word256 \<Rightarrow> byte list" where
  "toBytes this = toBytes_loop 32 this (replicate 32 0)"

definition isZero :: "Word256 \<Rightarrow> bool" where
  "isZero this = (this = 0)"

definition Word256_add :: "Word256 \<Rightarrow> Word256 \<Rightarrow> Word256" where
  "Word256_add this other = Word256_new (this + other)"

definition Word256_sub :: "Word256 \<Rightarrow> Word256 \<Rightarrow> Word256" where
  "Word256_sub this other = Word256_new (this - other)"

definition Word256_mul :: "Word256 \<Rightarrow> Word256 \<Rightarrow> Word256" where
  "Word256_mul this other = Word256_new (this * other)"

definition Word256_div :: "Word256 \<Rightarrow> Word256 \<Rightarrow> Word256" where
  "Word256_div this other =
     (if other = 0 then Word256_zero else Word256_new (bigint_div this other))"




section \<open>Address (types/Address.ts)\<close>

type_synonym Address = bigint

definition Address_new :: "bigint \<Rightarrow> Address" where
  "Address_new v = v AND (push_bit 160 1 - 1)"

definition Address_zero :: Address where
  "Address_zero = Address_new 0"

definition Address_toHex :: "Address \<Rightarrow> string" where
  "Address_toHex this = padStart 40 CHR ''0'' (bigint_toString 16 this)"

definition Address_toHexWith0x :: "Address \<Rightarrow> string" where
  "Address_toHexWith0x this = ''0x'' @ Address_toHex this"

section \<open>HaltReason (state/HaltReason.ts)\<close>

datatype HaltReason =
    STOP | RETURN | REVERT | OUT_OF_GAS | INVALID_OPCODE
  | STACK_UNDERFLOW | STACK_OVERFLOW | INVALID_JUMP | INVALID_INSTRUCTION

section \<open>MachineState (state/MachineState.ts)\<close>

record MachineState =
  pc :: nat
  gasRemaining :: bigint
  stack :: "Word256 list"
  memory :: "byte list"
  returnData :: "byte list"
  halted :: bool
  haltReason :: "HaltReason option"

definition MachineState_new :: "bigint \<Rightarrow> MachineState" where
  "MachineState_new initialGas =
     \<lparr>pc = 0, gasRemaining = initialGas, stack = [], memory = [], returnData = [],
      halted = False, haltReason = None\<rparr>"

definition halt :: "HaltReason \<Rightarrow> MachineState \<Rightarrow> MachineState" where
  "halt reason this = this\<lparr>halted := True, haltReason := Some reason\<rparr>"

text \<open>
  A method that may throw returns the exception (\<open>Inl\<close>) or its result (\<open>Inr\<close>), together
  with the object as the call leaves it: what was mutated before a \<open>throw\<close> stays mutated.
\<close>

definition chargeGas :: "bigint \<Rightarrow> MachineState \<Rightarrow> (JsError + unit) \<times> MachineState" where
  "chargeGas amount this =
     (if gasRemaining this < amount
      then (Inl (Error ''Out of gas''), halt OUT_OF_GAS this)
      else (Inr (), this\<lparr>gasRemaining := gasRemaining this - amount\<rparr>))"

definition expandMemory ::
  "js_number \<Rightarrow> js_number \<Rightarrow> MachineState \<Rightarrow> (JsError + bigint) \<times> MachineState" where
  "expandMemory offset len this =
     (if len = 0 then (Inr 0, this)
      else
        let requiredSize = num_add offset len;
            currentSize = int (length (memory this))
        in if requiredSize \<le> currentSize then (Inr 0, this)
           else
             let newSize = ((requiredSize + 31) div 32) * 32;
                 currentWords = currentSize div 32;
                 newWords = newSize div 32;
                 currentCost = currentWords * 3 + bigint_div (currentWords ^ 2) 512;
                 newCost = newWords * 3 + bigint_div (newWords ^ 2) 512;
                 expansionCost = newCost - currentCost
             in if newSize > MAX_TYPED_ARRAY_LENGTH
                then (Inl (RangeError ''Invalid typed array length''), this)
                else (Inr expansionCost,
                      this\<lparr>memory := memory this @ replicate (nat newSize - length (memory this)) 0\<rparr>))"

definition readMemory ::
  "js_number \<Rightarrow> js_number \<Rightarrow> MachineState \<Rightarrow> (JsError + byte list) \<times> MachineState" where
  "readMemory offset len this =
     (if len = 0 then (Inr [], this)
      else
        case (if num_add offset len > int (length (memory this))
              then expandMemory offset len this else (Inr 0, this)) of
          (Inl e, this') \<Rightarrow> (Inl e, this')
        | (Inr _, this') \<Rightarrow>
            (Inr (take (nat (num_add offset len) - nat offset) (drop (nat offset) (memory this'))),
             this'))"

definition writeMemory ::
  "js_number \<Rightarrow> byte list \<Rightarrow> MachineState \<Rightarrow> (JsError + unit) \<times> MachineState" where
  "writeMemory offset data this =
     (if data = [] then (Inr (), this)
      else
        case (if num_add offset (int (length data)) > int (length (memory this))
              then expandMemory offset (int (length data)) this else (Inr 0, this)) of
          (Inl e, this') \<Rightarrow> (Inl e, this')
        | (Inr _, this') \<Rightarrow>
            (if nat offset + length data > length (memory this')
             then (Inl (RangeError ''offset is out of bounds''), this')
             else (Inr (),
                   this'\<lparr>memory := take (nat offset) (memory this') @ data
                                     @ drop (nat offset + length data) (memory this')\<rparr>)))"

definition getMemorySize :: "MachineState \<Rightarrow> nat" where
  "getMemorySize this = length (memory this)"

section \<open>Stack (state/Stack.ts)\<close>

text \<open>\<open>items\<close> is the array of the class: bottom first, the top of the stack last.\<close>

record Stack =
  items :: "Word256 list"

definition MAX_STACK_DEPTH :: nat where
  "MAX_STACK_DEPTH = 1024"

definition Stack_new :: Stack where
  "Stack_new = \<lparr>items = []\<rparr>"

definition Stack_push :: "Word256 \<Rightarrow> Stack \<Rightarrow> (JsError + unit) \<times> Stack" where
  "Stack_push v this =
     (if length (items this) \<ge> MAX_STACK_DEPTH
      then (Inl (StackError ''Stack overflow: cannot push beyond 1024 items''), this)
      else (Inr (), this\<lparr>items := items this @ [v]\<rparr>))"

definition Stack_pop :: "Stack \<Rightarrow> (JsError + Word256) \<times> Stack" where
  "Stack_pop this =
     (if length (items this) = 0
      then (Inl (StackError ''Stack underflow: cannot pop from empty stack''), this)
      else (Inr (last (items this)), this\<lparr>items := butlast (items this)\<rparr>))"

definition Stack_peekAt :: "nat \<Rightarrow> Stack \<Rightarrow> (JsError + Word256) \<times> Stack" where
  "Stack_peekAt depth this =
     (if depth \<ge> length (items this)
      then (Inl (StackError (''Stack index out of bounds: '' @ nat_toString 10 depth)), this)
      else (Inr (items this ! (length (items this) - 1 - depth)), this))"

definition Stack_swap :: "nat \<Rightarrow> Stack \<Rightarrow> (JsError + unit) \<times> Stack" where
  "Stack_swap n this =
     (if n < 1 \<or> n > 16
      then (Inl (StackError (''Invalid swap depth: '' @ nat_toString 10 n @ '' (must be 1-16)'')), this)
      else if length (items this) < n + 1
      then (Inl (StackError (''Stack underflow: need '' @ nat_toString 10 (n + 1)
                             @ '' items for SWAP'' @ nat_toString 10 n)), this)
      else
        let topIndex = length (items this) - 1;
            swapIndex = length (items this) - 1 - n;
            temp = items this ! topIndex
        in (Inr (), this\<lparr>items := (items this)[topIndex := items this ! swapIndex, swapIndex := temp]\<rparr>))"

definition Stack_dup :: "nat \<Rightarrow> Stack \<Rightarrow> (JsError + unit) \<times> Stack" where
  "Stack_dup n this =
     (if n < 1 \<or> n > 16
      then (Inl (StackError (''Invalid dup depth: '' @ nat_toString 10 n @ '' (must be 1-16)'')), this)
      else if length (items this) < n
      then (Inl (StackError (''Stack underflow: need '' @ nat_toString 10 n
                             @ '' items for DUP'' @ nat_toString 10 n)), this)
      else if length (items this) \<ge> MAX_STACK_DEPTH
      then (Inl (StackError (''Stack overflow: cannot DUP'' @ nat_toString 10 n)), this)
      else
        let dupIndex = length (items this) - n
        in (Inr (), this\<lparr>items := items this @ [items this ! dupIndex]\<rparr>))"

section \<open>Trace events and the trace collector (trace/TraceEvent.ts, trace/TraceCollector.ts)\<close>

text \<open>
  Every event carries \<open>index\<close>, \<open>pc\<close> and \<open>gasRemaining\<close>; the rest depends on its \<open>type\<close>,
  which is the constructor of \<open>EventBody\<close>.  Words, addresses and byte arrays are stored
  as the hex strings the builders make, a gas amount as its decimal string.
\<close>

datatype EventBody =
    OpcodeStart nat string
  | StackPush string
  | StackPop string
  | MemoryWrite js_number string
  | MemoryRead js_number js_number
  | StorageRead string string string
  | StorageWrite string string string
  | GasCharge string string
  | Jump js_number js_number bool bool
  | Halt HaltReason

datatype TraceEvent =
  TraceEvent (index: nat) (ev_pc: nat) (ev_gasRemaining: bigint) (body: EventBody)

definition bytes_hex :: "byte list \<Rightarrow> string" where
  "bytes_hex data = ''0x'' @ concat (map (\<lambda>b. padStart 2 CHR ''0'' (nat_toString 16 (unat b))) data)"

definition TraceEventBuilder_opcodeStart ::
  "nat \<Rightarrow> nat \<Rightarrow> bigint \<Rightarrow> nat \<Rightarrow> string \<Rightarrow> TraceEvent" where
  "TraceEventBuilder_opcodeStart i p gas opcode name = TraceEvent i p gas (OpcodeStart opcode name)"

definition TraceEventBuilder_stackPush :: "nat \<Rightarrow> nat \<Rightarrow> bigint \<Rightarrow> Word256 \<Rightarrow> TraceEvent" where
  "TraceEventBuilder_stackPush i p gas v = TraceEvent i p gas (StackPush (toHexWith0x v))"

definition TraceEventBuilder_stackPop :: "nat \<Rightarrow> nat \<Rightarrow> bigint \<Rightarrow> Word256 \<Rightarrow> TraceEvent" where
  "TraceEventBuilder_stackPop i p gas v = TraceEvent i p gas (StackPop (toHexWith0x v))"

definition TraceEventBuilder_memoryWrite ::
  "nat \<Rightarrow> nat \<Rightarrow> bigint \<Rightarrow> js_number \<Rightarrow> byte list \<Rightarrow> TraceEvent" where
  "TraceEventBuilder_memoryWrite i p gas offset data =
     TraceEvent i p gas (MemoryWrite offset (bytes_hex data))"

definition TraceEventBuilder_memoryRead ::
  "nat \<Rightarrow> nat \<Rightarrow> bigint \<Rightarrow> js_number \<Rightarrow> js_number \<Rightarrow> TraceEvent" where
  "TraceEventBuilder_memoryRead i p gas offset len = TraceEvent i p gas (MemoryRead offset len)"

definition TraceEventBuilder_storageRead ::
  "nat \<Rightarrow> nat \<Rightarrow> bigint \<Rightarrow> Address \<Rightarrow> Word256 \<Rightarrow> Word256 \<Rightarrow> TraceEvent" where
  "TraceEventBuilder_storageRead i p gas a k v =
     TraceEvent i p gas (StorageRead (Address_toHexWith0x a) (toHexWith0x k) (toHexWith0x v))"

definition TraceEventBuilder_storageWrite ::
  "nat \<Rightarrow> nat \<Rightarrow> bigint \<Rightarrow> Address \<Rightarrow> Word256 \<Rightarrow> Word256 \<Rightarrow> TraceEvent" where
  "TraceEventBuilder_storageWrite i p gas a k v =
     TraceEvent i p gas (StorageWrite (Address_toHexWith0x a) (toHexWith0x k) (toHexWith0x v))"

definition TraceEventBuilder_gasCharge ::
  "nat \<Rightarrow> nat \<Rightarrow> bigint \<Rightarrow> bigint \<Rightarrow> string \<Rightarrow> TraceEvent" where
  "TraceEventBuilder_gasCharge i p gas amount reason =
     TraceEvent i p gas (GasCharge (bigint_toString 10 amount) reason)"

definition TraceEventBuilder_jump ::
  "nat \<Rightarrow> nat \<Rightarrow> bigint \<Rightarrow> js_number \<Rightarrow> js_number \<Rightarrow> bool \<Rightarrow> bool \<Rightarrow> TraceEvent" where
  "TraceEventBuilder_jump i p gas frm target conditional taken =
     TraceEvent i p gas (Jump frm target conditional taken)"

definition TraceEventBuilder_halt :: "nat \<Rightarrow> nat \<Rightarrow> bigint \<Rightarrow> HaltReason \<Rightarrow> TraceEvent" where
  "TraceEventBuilder_halt i p gas reason = TraceEvent i p gas (Halt reason)"

record TraceCollector =
  events :: "TraceEvent list"
  nextIndex :: nat

definition TraceCollector_new :: TraceCollector where
  "TraceCollector_new = \<lparr>events = [], nextIndex = 0\<rparr>"

definition record_event :: "TraceEvent \<Rightarrow> TraceCollector \<Rightarrow> TraceCollector" where
  "record_event event this = this\<lparr>events := events this @ [event]\<rparr>"

definition getNextIndex :: "TraceCollector \<Rightarrow> nat \<times> TraceCollector" where
  "getNextIndex this = (nextIndex this, this\<lparr>nextIndex := nextIndex this + 1\<rparr>)"

definition getEventCount :: "TraceCollector \<Rightarrow> nat" where
  "getEventCount this = length (events this)"

section \<open>Host and the in-memory host (host/Host.ts, host/MemoryHost.ts)\<close>

record LogEntry =
  log_address :: Address
  log_topics :: "Word256 list"
  log_data :: "byte list"

text \<open>
  A JavaScript \<open>Map\<close> keeps its entries in insertion order: it is the list of its entries,
  with \<open>get\<close>, \<open>set\<close> (an existing key keeps its place, a new one goes last) and
  \<open>delete\<close>.
\<close>

type_synonym ('k, 'v) js_map = "('k \<times> 'v) list"

definition Map_get :: "('k, 'v) js_map \<Rightarrow> 'k \<Rightarrow> 'v option" where
  "Map_get m k = map_of m k"

fun Map_set :: "'k \<Rightarrow> 'v \<Rightarrow> ('k, 'v) js_map \<Rightarrow> ('k, 'v) js_map" where
  "Map_set k v [] = [(k, v)]"
| "Map_set k v (p # ps) = (if fst p = k then (k, v) # ps else p # Map_set k v ps)"

definition Map_delete :: "'k \<Rightarrow> ('k, 'v) js_map \<Rightarrow> ('k, 'v) js_map" where
  "Map_delete k m = filter (\<lambda>p. fst p \<noteq> k) m"

record MemoryHost =
  storage :: "(string, Word256) js_map"
  logs :: "LogEntry list"
  address :: Address

definition MemoryHost_new :: "Address option \<Rightarrow> MemoryHost" where
  "MemoryHost_new a =
     \<lparr>storage = [], logs = [],
      address = (case a of Some x \<Rightarrow> x | None \<Rightarrow> Address_zero)\<rparr>"

definition storageKey :: "Address \<Rightarrow> Word256 \<Rightarrow> string" where
  "storageKey a key = Address_toHex a @ '':'' @ toHex key"

definition sload :: "Address \<Rightarrow> Word256 \<Rightarrow> MemoryHost \<Rightarrow> Word256" where
  "sload a key this =
     (case Map_get (storage this) (storageKey a key) of Some v \<Rightarrow> v | None \<Rightarrow> Word256_zero)"

definition sstore :: "Address \<Rightarrow> Word256 \<Rightarrow> Word256 \<Rightarrow> MemoryHost \<Rightarrow> MemoryHost" where
  "sstore a key v this =
     (if isZero v then this\<lparr>storage := Map_delete (storageKey a key) (storage this)\<rparr>
      else this\<lparr>storage := Map_set (storageKey a key) v (storage this)\<rparr>)"

definition host_log :: "LogEntry \<Rightarrow> MemoryHost \<Rightarrow> MemoryHost" where
  "host_log entry this = this\<lparr>logs := logs this @ [entry]\<rparr>"

definition getAddress :: "MemoryHost \<Rightarrow> Address" where
  "getAddress this = address this"

section \<open>Opcode table (opcodes/Opcode.ts)\<close>

text \<open>The members of the \<open>Opcode\<close> enum, for the reverse lookup \<open>Opcode[opcode]\<close>.\<close>

definition Opcode_enum :: "(nat \<times> string) list" where
  "Opcode_enum =
     [(0x00, ''STOP''), (0x01, ''ADD''), (0x02, ''MUL''), (0x03, ''SUB''), (0x04, ''DIV''),
      (0x05, ''SDIV''), (0x06, ''MOD''), (0x07, ''SMOD''), (0x08, ''ADDMOD''),
      (0x09, ''MULMOD''), (0x0a, ''EXP''), (0x0b, ''SIGNEXTEND''),
      (0x10, ''LT''), (0x11, ''GT''), (0x12, ''SLT''), (0x13, ''SGT''), (0x14, ''EQ''),
      (0x15, ''ISZERO''), (0x16, ''AND''), (0x17, ''OR''), (0x18, ''XOR''), (0x19, ''NOT''),
      (0x1a, ''BYTE''), (0x1b, ''SHL''), (0x1c, ''SHR''), (0x1d, ''SAR''),
      (0x20, ''KECCAK256''),
      (0x30, ''ADDRESS''), (0x31, ''BALANCE''), (0x32, ''ORIGIN''), (0x33, ''CALLER''),
      (0x34, ''CALLVALUE''), (0x35, ''CALLDATALOAD''), (0x36, ''CALLDATASIZE''),
      (0x37, ''CALLDATACOPY''), (0x38, ''CODESIZE''), (0x39, ''CODECOPY''),
      (0x3a, ''GASPRICE''),
      (0x50, ''POP''), (0x51, ''MLOAD''), (0x52, ''MSTORE''), (0x53, ''MSTORE8''),
      (0x54, ''SLOAD''), (0x55, ''SSTORE''), (0x56, ''JUMP''), (0x57, ''JUMPI''),
      (0x58, ''PC''), (0x59, ''MSIZE''), (0x5a, ''GAS''), (0x5b, ''JUMPDEST''),
      (0x60, ''PUSH1''), (0x7f, ''PUSH32''), (0x80, ''DUP1''), (0x8f, ''DUP16''),
      (0x90, ''SWAP1''), (0x9f, ''SWAP16''),
      (0xa0, ''LOG0''), (0xa1, ''LOG1''), (0xa2, ''LOG2''), (0xa3, ''LOG3''), (0xa4, ''LOG4''),
      (0xf3, ''RETURN''), (0xfd, ''REVERT''), (0xfe, ''INVALID'')]"

definition getOpcodeName :: "nat \<Rightarrow> string" where
  "getOpcodeName opcode =
     (if opcode \<ge> 0x60 \<and> opcode \<le> 0x7f then ''PUSH'' @ nat_toString 10 (opcode - 0x5f)
      else if opcode \<ge> 0x80 \<and> opcode \<le> 0x8f then ''DUP'' @ nat_toString 10 (opcode - 0x7f)
      else if opcode \<ge> 0x90 \<and> opcode \<le> 0x9f then ''SWAP'' @ nat_toString 10 (opcode - 0x8f)
      else case map_of Opcode_enum opcode of
             Some name \<Rightarrow> name
           | None \<Rightarrow> ''UNKNOWN(0x'' @ padStart 2 CHR ''0'' (nat_toString 16 opcode) @ '')'')"

definition isPushOpcode :: "nat \<Rightarrow> bool" where
  "isPushOpcode opcode = (opcode \<ge> 0x60 \<and> opcode \<le> 0x7f)"

definition getPushBytes :: "nat \<Rightarrow> nat" where
  "getPushBytes opcode = (if \<not> isPushOpcode opcode then 0 else opcode - 0x5f)"

section \<open>Jump-destination analysis (opcodes/controlflow.ts)\<close>

function buildJumpDestinations_loop :: "byte list \<Rightarrow> nat \<Rightarrow> nat set \<Rightarrow> nat set" where
  "buildJumpDestinations_loop bytecode i validDests =
     (if i < length bytecode then
        (if unat (bytecode ! i) = 0x5b
         then buildJumpDestinations_loop bytecode (i + 1) (insert i validDests)
         else if unat (bytecode ! i) \<ge> 0x60 \<and> unat (bytecode ! i) \<le> 0x7f
         then buildJumpDestinations_loop bytecode (i + 1 + (unat (bytecode ! i) - 0x5f)) validDests
         else buildJumpDestinations_loop bytecode (i + 1) validDests)
      else validDests)"
  by pat_completeness auto
termination
  by (relation "measure (\<lambda>(bytecode, i, validDests). length bytecode - i)") auto

declare buildJumpDestinations_loop.simps [simp del]

definition buildJumpDestinations :: "byte list \<Rightarrow> nat set" where
  "buildJumpDestinations bytecode = buildJumpDestinations_loop bytecode 0 {}"

section \<open>The interpreter's objects and the opcode handlers\<close>

text \<open>
  The private fields of the \<open>Interpreter\<close> class.  The handlers receive \<open>state\<close>,
  \<open>stack\<close>, \<open>trace\<close> and \<open>host\<close> by reference and mutate them, so a handler is a function
  from these objects to its outcome (an exception or a result) and the objects as it
  leaves them.  \<open>bindE\<close> is sequencing: an exception of the first statement skips the rest.
\<close>

record Interpreter =
  i_bytecode :: "byte list"
  i_calldata :: "byte list"
  i_state :: MachineState
  i_stack :: Stack
  i_trace :: TraceCollector
  i_validJumpDests :: "nat set"
  i_host :: MemoryHost

type_synonym 'a exec = "Interpreter \<Rightarrow> (JsError + 'a) \<times> Interpreter"

definition returnE :: "'a \<Rightarrow> 'a exec" where
  "returnE x = (\<lambda>c. (Inr x, c))"

definition throwE :: "JsError \<Rightarrow> 'a exec" where
  "throwE e = (\<lambda>c. (Inl e, c))"

definition bindE :: "'a exec \<Rightarrow> ('a \<Rightarrow> 'b exec) \<Rightarrow> 'b exec" where
  "bindE m f = (\<lambda>c. case m c of (Inl e, c') \<Rightarrow> (Inl e, c') | (Inr x, c') \<Rightarrow> f x c')"

definition seqE :: "unit exec \<Rightarrow> 'b exec \<Rightarrow> 'b exec" where
  "seqE m n = bindE m (\<lambda>_. n)"

definition whenE :: "bool \<Rightarrow> unit exec \<Rightarrow> unit exec" where
  "whenE b m = (if b then m else returnE ())"

text \<open>Calls of the methods of \<open>state\<close>, \<open>stack\<close>, \<open>trace\<close> and \<open>host\<close>.\<close>

definition on_state :: "(MachineState \<Rightarrow> (JsError + 'a) \<times> MachineState) \<Rightarrow> 'a exec" where
  "on_state f = (\<lambda>c. case f (i_state c) of (r, s') \<Rightarrow> (r, c\<lparr>i_state := s'\<rparr>))"

definition on_stack :: "(Stack \<Rightarrow> (JsError + 'a) \<times> Stack) \<Rightarrow> 'a exec" where
  "on_stack f = (\<lambda>c. case f (i_stack c) of (r, s') \<Rightarrow> (r, c\<lparr>i_stack := s'\<rparr>))"

definition state_chargeGas :: "bigint \<Rightarrow> unit exec" where
  "state_chargeGas amount = on_state (chargeGas amount)"

definition state_halt :: "HaltReason \<Rightarrow> unit exec" where
  "state_halt reason = (\<lambda>c. (Inr (), c\<lparr>i_state := halt reason (i_state c)\<rparr>))"

definition state_expandMemory :: "js_number \<Rightarrow> js_number \<Rightarrow> bigint exec" where
  "state_expandMemory offset len = on_state (expandMemory offset len)"

definition state_readMemory :: "js_number \<Rightarrow> js_number \<Rightarrow> (byte list) exec" where
  "state_readMemory offset len = on_state (readMemory offset len)"

definition state_writeMemory :: "js_number \<Rightarrow> byte list \<Rightarrow> unit exec" where
  "state_writeMemory offset data = on_state (writeMemory offset data)"

definition set_pc :: "nat \<Rightarrow> unit exec" where
  "set_pc p = (\<lambda>c. (Inr (), c\<lparr>i_state := (i_state c)\<lparr>pc := p\<rparr>\<rparr>))"

definition advance_pc :: "nat \<Rightarrow> unit exec" where
  "advance_pc n = (\<lambda>c. (Inr (), c\<lparr>i_state := (i_state c)\<lparr>pc := pc (i_state c) + n\<rparr>\<rparr>))"

definition set_returnData :: "byte list \<Rightarrow> unit exec" where
  "set_returnData d = (\<lambda>c. (Inr (), c\<lparr>i_state := (i_state c)\<lparr>returnData := d\<rparr>\<rparr>))"

definition get_pc :: "nat exec" where
  "get_pc = (\<lambda>c. (Inr (pc (i_state c)), c))"

definition get_gasRemaining :: "bigint exec" where
  "get_gasRemaining = (\<lambda>c. (Inr (gasRemaining (i_state c)), c))"

definition state_getMemorySize :: "nat exec" where
  "state_getMemorySize = (\<lambda>c. (Inr (getMemorySize (i_state c)), c))"

definition get_bytecode :: "(byte list) exec" where
  "get_bytecode = (\<lambda>c. (Inr (i_bytecode c), c))"

definition get_calldata :: "(byte list) exec" where
  "get_calldata = (\<lambda>c. (Inr (i_calldata c), c))"

definition get_validJumpDests :: "(nat set) exec" where
  "get_validJumpDests = (\<lambda>c. (Inr (i_validJumpDests c), c))"

definition host_getAddress :: "Address exec" where
  "host_getAddress = (\<lambda>c. (Inr (getAddress (i_host c)), c))"

definition host_sload :: "Address \<Rightarrow> Word256 \<Rightarrow> Word256 exec" where
  "host_sload a key = (\<lambda>c. (Inr (sload a key (i_host c)), c))"

definition host_sstore :: "Address \<Rightarrow> Word256 \<Rightarrow> Word256 \<Rightarrow> unit exec" where
  "host_sstore a key v = (\<lambda>c. (Inr (), c\<lparr>i_host := sstore a key v (i_host c)\<rparr>))"

definition host_log_entry :: "LogEntry \<Rightarrow> unit exec" where
  "host_log_entry entry = (\<lambda>c. (Inr (), c\<lparr>i_host := host_log entry (i_host c)\<rparr>))"

definition stack_push :: "Word256 \<Rightarrow> unit exec" where
  "stack_push v = on_stack (Stack_push v)"

definition stack_pop :: "Word256 exec" where
  "stack_pop = on_stack Stack_pop"

definition stack_peekAt :: "nat \<Rightarrow> Word256 exec" where
  "stack_peekAt depth = on_stack (Stack_peekAt depth)"

definition stack_swap :: "nat \<Rightarrow> unit exec" where
  "stack_swap n = on_stack (Stack_swap n)"

definition stack_dup :: "nat \<Rightarrow> unit exec" where
  "stack_dup n = on_stack (Stack_dup n)"

definition trace_getNextIndex :: "nat exec" where
  "trace_getNextIndex =
     (\<lambda>c. case getNextIndex (i_trace c) of (i, t') \<Rightarrow> (Inr i, c\<lparr>i_trace := t'\<rparr>))"

definition trace_record :: "TraceEvent \<Rightarrow> unit exec" where
  "trace_record event = (\<lambda>c. (Inr (), c\<lparr>i_trace := record_event event (i_trace c)\<rparr>))"

text \<open>
  The recurring statement pair
  \<open>const e = TraceEventBuilder.f(trace.getNextIndex(), state.pc, state.gasRemaining, ...);
  trace.record(e)\<close>: the arguments are evaluated left to right, then the event is built and
  recorded.
\<close>

definition emit :: "(nat \<Rightarrow> nat \<Rightarrow> bigint \<Rightarrow> TraceEvent) \<Rightarrow> unit exec" where
  "emit builder =
     bindE trace_getNextIndex (\<lambda>i.
     bindE get_pc (\<lambda>p.
     bindE get_gasRemaining (\<lambda>g.
     trace_record (builder i p g))))"

definition emit_gasCharge :: "bigint \<Rightarrow> string \<Rightarrow> unit exec" where
  "emit_gasCharge amount reason = emit (\<lambda>i p g. TraceEventBuilder_gasCharge i p g amount reason)"

definition emit_stackPop :: "Word256 \<Rightarrow> unit exec" where
  "emit_stackPop v = emit (\<lambda>i p g. TraceEventBuilder_stackPop i p g v)"

definition emit_stackPush :: "Word256 \<Rightarrow> unit exec" where
  "emit_stackPush v = emit (\<lambda>i p g. TraceEventBuilder_stackPush i p g v)"

subsection \<open>Arithmetic (opcodes/arithmetic.ts)\<close>

text \<open>
  \<open>executeAdd\<close>, \<open>executeMul\<close>, \<open>executeSub\<close> and \<open>executeDiv\<close> are the same text up
  to the gas amount, the mnemonic and the \<open>Word256\<close> method applied to \<open>a\<close> and \<open>b\<close>.
\<close>

definition executeBinary ::
  "bigint \<Rightarrow> string \<Rightarrow> (Word256 \<Rightarrow> Word256 \<Rightarrow> Word256) \<Rightarrow> unit exec" where
  "executeBinary gas name f =
     seqE (state_chargeGas gas)
    (seqE (emit_gasCharge gas name)
    (bindE stack_pop (\<lambda>b.
     seqE (emit_stackPop b)
    (bindE stack_pop (\<lambda>a.
     seqE (emit_stackPop a)
    (seqE (stack_push (f a b))
    (seqE (emit_stackPush (f a b))
     (advance_pc 1))))))))"

definition executeAdd :: "unit exec" where
  "executeAdd = executeBinary 3 ''ADD'' Word256_add"

definition executeMul :: "unit exec" where
  "executeMul = executeBinary 5 ''MUL'' Word256_mul"

definition executeSub :: "unit exec" where
  "executeSub = executeBinary 3 ''SUB'' Word256_sub"

definition executeDiv :: "unit exec" where
  "executeDiv = executeBinary 5 ''DIV'' Word256_div"

subsection \<open>System (opcodes/system.ts)\<close>

definition executeStop :: "unit exec" where
  "executeStop = state_halt STOP"

subsection \<open>Stack manipulation (opcodes/stack.ts)\<close>

definition executePOP :: "unit exec" where
  "executePOP =
     seqE (state_chargeGas 2)
    (seqE (emit_gasCharge 2 ''POP'')
    (bindE stack_pop (\<lambda>v.
     seqE (emit_stackPop v)
     (advance_pc 1))))"

definition executeDUP :: "nat \<Rightarrow> unit exec" where
  "executeDUP opcode =
     (let n = opcode - 0x7f in
      seqE (state_chargeGas 3)
     (seqE (emit_gasCharge 3 (''DUP'' @ nat_toString 10 n))
     (bindE (stack_peekAt (n - 1)) (\<lambda>v.
      seqE (stack_dup n)
     (seqE (emit_stackPush v)
      (advance_pc 1))))))"

definition executeSWAP :: "nat \<Rightarrow> unit exec" where
  "executeSWAP opcode =
     (let n = opcode - 0x8f in
      seqE (state_chargeGas 3)
     (seqE (emit_gasCharge 3 (''SWAP'' @ nat_toString 10 n))
     (seqE (stack_swap n)
      (advance_pc 1))))"

subsection \<open>Memory (opcodes/memory.ts)\<close>

text \<open>
  The statement
  \<open>if (expansionCost > 0n) { state.chargeGas(expansionCost); record gasCharge(..., reason) }\<close>.
\<close>

definition charge_expansion :: "bigint \<Rightarrow> string \<Rightarrow> unit exec" where
  "charge_expansion expansionCost reason =
     whenE (expansionCost > 0)
       (seqE (state_chargeGas expansionCost) (emit_gasCharge expansionCost reason))"

definition bytes_to_bigint :: "byte list \<Rightarrow> bigint" where
  "bytes_to_bigint data = foldl (\<lambda>v b. push_bit 8 v OR uint b) 0 data"

definition executeMLOAD :: "unit exec" where
  "executeMLOAD =
     seqE (state_chargeGas 3)
    (seqE (emit_gasCharge 3 ''MLOAD'')
    (bindE stack_pop (\<lambda>offsetWord.
     seqE (emit_stackPop offsetWord)
    (let offset = Number_of_bigint offsetWord in
     bindE (state_expandMemory offset 32) (\<lambda>expansionCost.
     seqE (charge_expansion expansionCost ''MLOAD memory expansion'')
    (bindE (state_readMemory offset 32) (\<lambda>data.
     seqE (emit (\<lambda>i p g. TraceEventBuilder_memoryRead i p g offset 32))
    (let v = push_bit (8 * (32 - length data)) (bytes_to_bigint data);
         result = Word256_from v in
     seqE (stack_push result)
    (seqE (emit_stackPush result)
     (advance_pc 1))))))))))"

definition executeMSTORE :: "unit exec" where
  "executeMSTORE =
     seqE (state_chargeGas 3)
    (seqE (emit_gasCharge 3 ''MSTORE'')
    (bindE stack_pop (\<lambda>offsetWord.
     seqE (emit_stackPop offsetWord)
    (bindE stack_pop (\<lambda>v.
     seqE (emit_stackPop v)
    (let offset = Number_of_bigint offsetWord in
     bindE (state_expandMemory offset 32) (\<lambda>expansionCost.
     seqE (charge_expansion expansionCost ''MSTORE memory expansion'')
    (let bytes = toBytes_loop 32 v (replicate 32 0) in
     seqE (state_writeMemory offset bytes)
    (seqE (emit (\<lambda>i p g. TraceEventBuilder_memoryWrite i p g offset bytes))
     (advance_pc 1))))))))))"

definition executeMSTORE8 :: "unit exec" where
  "executeMSTORE8 =
     seqE (state_chargeGas 3)
    (seqE (emit_gasCharge 3 ''MSTORE8'')
    (bindE stack_pop (\<lambda>offsetWord.
     seqE (emit_stackPop offsetWord)
    (bindE stack_pop (\<lambda>v.
     seqE (emit_stackPop v)
    (let offset = Number_of_bigint offsetWord in
     bindE (state_expandMemory offset 1) (\<lambda>expansionCost.
     seqE (charge_expansion expansionCost ''MSTORE8 memory expansion'')
    (let byte = [word_of_int (v AND 255)] in
     seqE (state_writeMemory offset byte)
    (seqE (emit (\<lambda>i p g. TraceEventBuilder_memoryWrite i p g offset byte))
     (advance_pc 1))))))))))"

definition executeMSIZE :: "unit exec" where
  "executeMSIZE =
     seqE (state_chargeGas 2)
    (seqE (emit_gasCharge 2 ''MSIZE'')
    (bindE state_getMemorySize (\<lambda>n.
     let size = Word256_from (int n) in
     seqE (stack_push size)
    (seqE (emit_stackPush size)
     (advance_pc 1)))))"

subsection \<open>Calldata and return (opcodes/data.ts)\<close>

definition calldata_bytes :: "byte list \<Rightarrow> js_number \<Rightarrow> nat \<Rightarrow> byte list" where
  "calldata_bytes calldata offset n =
     map (\<lambda>i. if num_add offset (int i) < int (length calldata)
               then calldata ! nat (num_add offset (int i)) else 0) [0..<n]"

definition executeCALLDATALOAD :: "unit exec" where
  "executeCALLDATALOAD =
     seqE (state_chargeGas 3)
    (seqE (emit_gasCharge 3 ''CALLDATALOAD'')
    (bindE stack_pop (\<lambda>offsetWord.
     seqE (emit_stackPop offsetWord)
    (bindE get_calldata (\<lambda>calldata.
     let offset = Number_of_bigint offsetWord;
         data = calldata_bytes calldata offset 32;
         result = Word256_from (bytes_to_bigint data) in
     seqE (stack_push result)
    (seqE (emit_stackPush result)
     (advance_pc 1)))))))"

definition executeCALLDATASIZE :: "unit exec" where
  "executeCALLDATASIZE =
     seqE (state_chargeGas 2)
    (seqE (emit_gasCharge 2 ''CALLDATASIZE'')
    (bindE get_calldata (\<lambda>calldata.
     let size = Word256_from (int (length calldata)) in
     seqE (stack_push size)
    (seqE (emit_stackPush size)
     (advance_pc 1)))))"

definition executeCALLDATACOPY :: "unit exec" where
  "executeCALLDATACOPY =
     seqE (state_chargeGas 3)
    (seqE (emit_gasCharge 3 ''CALLDATACOPY'')
    (bindE stack_pop (\<lambda>destOffsetWord.
     seqE (emit_stackPop destOffsetWord)
    (bindE stack_pop (\<lambda>offsetWord.
     seqE (emit_stackPop offsetWord)
    (bindE stack_pop (\<lambda>lengthWord.
     seqE (emit_stackPop lengthWord)
    (let destOffset = Number_of_bigint destOffsetWord;
         offset = Number_of_bigint offsetWord;
         len = Number_of_bigint lengthWord;
         wordCount = (len + 31) div 32;
         copyGas = wordCount * 3 in
     seqE (whenE (copyGas > 0)
            (seqE (state_chargeGas copyGas) (emit_gasCharge copyGas ''CALLDATACOPY copy cost'')))
    (seqE (whenE (len > 0)
            (bindE (state_expandMemory destOffset len) (\<lambda>expansionCost.
             charge_expansion expansionCost ''CALLDATACOPY memory expansion'')))
    (bindE get_calldata (\<lambda>calldata.
     if len > MAX_TYPED_ARRAY_LENGTH
     then throwE (RangeError ''Invalid typed array length'')
     else
       let data = calldata_bytes calldata offset (nat len) in
       seqE (whenE (len > 0)
              (seqE (state_writeMemory destOffset data)
                    (emit (\<lambda>i p g. TraceEventBuilder_memoryWrite i p g destOffset data))))
       (advance_pc 1))))))))))))"

text \<open>\<open>executeRETURN\<close> and \<open>executeREVERT\<close> differ in the mnemonic and the halt reason.\<close>

definition executeReturnLike :: "string \<Rightarrow> HaltReason \<Rightarrow> unit exec" where
  "executeReturnLike name reason =
     bindE stack_pop (\<lambda>offsetWord.
     seqE (emit_stackPop offsetWord)
    (bindE stack_pop (\<lambda>lengthWord.
     seqE (emit_stackPop lengthWord)
    (let offset = Number_of_bigint offsetWord;
         len = Number_of_bigint lengthWord in
     seqE (if len > 0
           then bindE (state_expandMemory offset len) (\<lambda>expansionCost.
                seqE (charge_expansion expansionCost (name @ '' memory expansion''))
               (bindE (state_readMemory offset len) (\<lambda>data. set_returnData data)))
           else set_returnData [])
     (state_halt reason)))))"

definition executeRETURN :: "unit exec" where
  "executeRETURN = executeReturnLike ''RETURN'' RETURN"

definition executeREVERT :: "unit exec" where
  "executeREVERT = executeReturnLike ''REVERT'' REVERT"

subsection \<open>Control flow (opcodes/controlflow.ts)\<close>

definition executePC :: "unit exec" where
  "executePC =
     seqE (state_chargeGas 2)
    (seqE (emit_gasCharge 2 ''PC'')
    (bindE get_pc (\<lambda>p.
     let pcValue = Word256_from (int p) in
     seqE (stack_push pcValue)
    (seqE (emit_stackPush pcValue)
     (advance_pc 1)))))"

definition executeJUMPDEST :: "unit exec" where
  "executeJUMPDEST =
     seqE (state_chargeGas 1)
    (seqE (emit_gasCharge 1 ''JUMPDEST'')
     (advance_pc 1))"

text \<open>
  The validation at the end of \<open>executeJUMP\<close> and of \<open>executeJUMPI\<close> (the two \<open>if\<close>s with
  \<open>state.halt(HaltReason.INVALID_JUMP); return\<close>, then \<open>state.pc = destPC\<close>).
\<close>

definition validate_and_jump :: "js_number \<Rightarrow> unit exec" where
  "validate_and_jump destPC =
     bindE get_bytecode (\<lambda>bytecode.
     bindE get_validJumpDests (\<lambda>validJumpDests.
     if destPC \<ge> int (length bytecode) then state_halt INVALID_JUMP
     else if nat destPC \<notin> validJumpDests then state_halt INVALID_JUMP
     else set_pc (nat destPC)))"

definition executeJUMP :: "unit exec" where
  "executeJUMP =
     seqE (state_chargeGas 8)
    (seqE (emit_gasCharge 8 ''JUMP'')
    (bindE stack_pop (\<lambda>dest.
     seqE (emit_stackPop dest)
    (let destPC = Number_of_bigint dest in
     seqE (emit (\<lambda>i p g. TraceEventBuilder_jump i p g (int p) destPC False True))
     (validate_and_jump destPC)))))"

definition executeJUMPI :: "unit exec" where
  "executeJUMPI =
     seqE (state_chargeGas 10)
    (seqE (emit_gasCharge 10 ''JUMPI'')
    (bindE stack_pop (\<lambda>condition.
     seqE (emit_stackPop condition)
    (bindE stack_pop (\<lambda>dest.
     seqE (emit_stackPop dest)
    (let shouldJump = (condition \<noteq> 0);
         destPC = Number_of_bigint dest in
     seqE (emit (\<lambda>i p g. TraceEventBuilder_jump i p g (int p) destPC True shouldJump))
     (if \<not> shouldJump then advance_pc 1 else validate_and_jump destPC)))))))"

subsection \<open>Storage (opcodes/storage.ts)\<close>

definition executeSLOAD :: "unit exec" where
  "executeSLOAD =
     seqE (state_chargeGas 200)
    (bindE stack_pop (\<lambda>key.
     bindE host_getAddress (\<lambda>a.
     bindE (host_sload a key) (\<lambda>v.
     seqE (emit (\<lambda>i p g. TraceEventBuilder_storageRead i p g a key v))
    (seqE (stack_push v)
     (advance_pc 1))))))"

definition executeSSTORE :: "unit exec" where
  "executeSSTORE =
     bindE stack_pop (\<lambda>key.
     bindE stack_pop (\<lambda>v.
     bindE host_getAddress (\<lambda>a.
     bindE (host_sload a key) (\<lambda>currentValue.
     let gasCost = (if isZero currentValue \<and> \<not> isZero v then 20000 else 5000) in
     seqE (state_chargeGas gasCost)
    (seqE (emit (\<lambda>i p g. TraceEventBuilder_storageWrite i p g a key v))
    (seqE (host_sstore a key v)
     (advance_pc 1)))))))"

subsection \<open>Logging (opcodes/logging.ts)\<close>

text \<open>
  \<open>executeLOG0\<close> .. \<open>executeLOG4\<close> are the same text up to the number \<open>t\<close> of topics
  popped after \<open>offset\<close> and \<open>length\<close>.  Each ends by calling \<open>TraceEventBuilder.log\<close>, which
  the class \<open>TraceEventBuilder\<close> does not have: the arguments are evaluated (so
  \<open>trace.getNextIndex()\<close> runs), then calling the undefined member raises a \<open>TypeError\<close>,
  and \<open>trace.record(event); state.pc += 1\<close> are never reached.
\<close>

fun pop_topics :: "nat \<Rightarrow> (Word256 list) exec" where
  "pop_topics 0 = returnE []"
| "pop_topics (Suc t) = bindE stack_pop (\<lambda>topic. bindE (pop_topics t) (\<lambda>rest. returnE (topic # rest)))"

definition executeLOG :: "nat \<Rightarrow> unit exec" where
  "executeLOG t =
     bindE stack_pop (\<lambda>offsetWord.
     bindE stack_pop (\<lambda>lengthWord.
     bindE (pop_topics t) (\<lambda>topics.
     (let offset = Number_of_bigint offsetWord;
          len = Number_of_bigint lengthWord in
      bindE (state_expandMemory offset len) (\<lambda>expansionCost.
      seqE (state_chargeGas (375 + int t * 375 + 8 * len + expansionCost))
     (bindE (state_readMemory offset len) (\<lambda>data.
      bindE host_getAddress (\<lambda>a.
      seqE (host_log_entry \<lparr>log_address = a, log_topics = topics, log_data = data\<rparr>)
     (bindE trace_getNextIndex (\<lambda>i.
      throwE (TypeError ''TraceEventBuilder.log is not a function'')))))))))))"

definition executeLOG0 :: "unit exec" where
  "executeLOG0 = executeLOG 0"

definition executeLOG1 :: "unit exec" where
  "executeLOG1 = executeLOG 1"

definition executeLOG2 :: "unit exec" where
  "executeLOG2 = executeLOG 2"

definition executeLOG3 :: "unit exec" where
  "executeLOG3 = executeLOG 3"

definition executeLOG4 :: "unit exec" where
  "executeLOG4 = executeLOG 4"

section \<open>The interpreter (interpreter/Interpreter.ts)\<close>

record InterpreterConfig =
  cfg_bytecode :: "byte list"
  cfg_initialGas :: bigint
  cfg_calldata :: "byte list option"
  cfg_host :: MemoryHost

definition Interpreter_new :: "InterpreterConfig \<Rightarrow> Interpreter" where
  "Interpreter_new config =
     \<lparr>i_bytecode = cfg_bytecode config,
      i_calldata = (case cfg_calldata config of Some d \<Rightarrow> d | None \<Rightarrow> []),
      i_state = MachineState_new (cfg_initialGas config),
      i_stack = Stack_new,
      i_trace = TraceCollector_new,
      i_validJumpDests = buildJumpDestinations (cfg_bytecode config),
      i_host = cfg_host config\<rparr>"

definition push_value :: "byte list \<Rightarrow> nat \<Rightarrow> nat \<Rightarrow> bigint" where
  "push_value bytecode p numBytes =
     foldl (\<lambda>v i. if p + i < length bytecode then push_bit 8 v OR uint (bytecode ! (p + i))
                   else push_bit 8 v) 0 [1..<numBytes + 1]"

definition executePush :: "nat \<Rightarrow> unit exec" where
  "executePush opcode =
     (let numBytes = getPushBytes opcode in
      seqE (state_chargeGas 3)
     (seqE (emit_gasCharge 3 (''PUSH'' @ nat_toString 10 numBytes))
     (bindE get_bytecode (\<lambda>bytecode.
      bindE get_pc (\<lambda>p.
      let word = Word256_from (push_value bytecode p numBytes) in
      seqE (stack_push word)
     (seqE (emit_stackPush word)
      (advance_pc (1 + numBytes))))))))"

definition executeOpcode :: "nat \<Rightarrow> unit exec" where
  "executeOpcode opcode =
     (if isPushOpcode opcode then executePush opcode
      else if opcode \<ge> 0x80 \<and> opcode \<le> 0x8f then executeDUP opcode
      else if opcode \<ge> 0x90 \<and> opcode \<le> 0x9f then executeSWAP opcode
      else if opcode = 0x00 then executeStop
      else if opcode = 0x01 then executeAdd
      else if opcode = 0x02 then executeMul
      else if opcode = 0x03 then executeSub
      else if opcode = 0x04 then executeDiv
      else if opcode = 0x50 then executePOP
      else if opcode = 0x51 then executeMLOAD
      else if opcode = 0x52 then executeMSTORE
      else if opcode = 0x53 then executeMSTORE8
      else if opcode = 0x59 then executeMSIZE
      else if opcode = 0x35 then executeCALLDATALOAD
      else if opcode = 0x36 then executeCALLDATASIZE
      else if opcode = 0x37 then executeCALLDATACOPY
      else if opcode = 0xf3 then executeRETURN
      else if opcode = 0xfd then executeREVERT
      else if opcode = 0x58 then executePC
      else if opcode = 0x56 then executeJUMP
      else if opcode = 0x57 then executeJUMPI
      else if opcode = 0x5b then executeJUMPDEST
      else if opcode = 0x54 then executeSLOAD
      else if opcode = 0x55 then executeSSTORE
      else if opcode = 0xa0 then executeLOG0
      else if opcode = 0xa1 then executeLOG1
      else if opcode = 0xa2 then executeLOG2
      else if opcode = 0xa3 then executeLOG3
      else if opcode = 0xa4 then executeLOG4
      else state_halt INVALID_OPCODE)"

text \<open>
  The end of \<open>step\<close>: \<open>if (this.state.halted && this.state.haltReason) { record the halt
  event; return false }\<close>, then \<open>return !this.state.halted\<close>.
\<close>

definition get_halted :: "bool exec" where
  "get_halted = (\<lambda>c. (Inr (halted (i_state c)), c))"

definition get_haltReason :: "(HaltReason option) exec" where
  "get_haltReason = (\<lambda>c. (Inr (haltReason (i_state c)), c))"

definition emit_halt_if_halted :: "bool exec" where
  "emit_halt_if_halted =
     bindE get_halted (\<lambda>h.
     bindE get_haltReason (\<lambda>r.
     case (h, r) of
       (True, Some reason) \<Rightarrow>
         seqE (emit (\<lambda>i p g. TraceEventBuilder_halt i p g reason)) (returnE False)
     | _ \<Rightarrow> returnE (\<not> h)))"

text \<open>The \<open>try\<close> statement: the handler runs, an exception goes to the \<open>catch\<close> block.\<close>

definition try_catch :: "unit exec \<Rightarrow> (JsError \<Rightarrow> unit exec) \<Rightarrow> unit exec" where
  "try_catch m h = (\<lambda>c. case m c of (Inl err, c') \<Rightarrow> h err c' | (Inr u, c') \<Rightarrow> (Inr u, c'))"

text \<open>The \<open>catch\<close> block of \<open>step\<close>.\<close>

definition catch_handler_error :: "JsError \<Rightarrow> unit exec" where
  "catch_handler_error err =
     (if instanceof_StackError err
      then state_halt (if string_includes (message err) ''overflow''
                       then STACK_OVERFLOW else STACK_UNDERFLOW)
      else if message err = ''Out of gas'' then returnE ()
      else throwE err)"

definition step :: "bool exec" where
  "step =
     bindE get_halted (\<lambda>h.
     if h then returnE False
     else
       bindE get_pc (\<lambda>p.
       bindE get_bytecode (\<lambda>bytecode.
       if p \<ge> length bytecode then
         seqE (state_halt STOP)
        (seqE (emit (\<lambda>i p g. TraceEventBuilder_halt i p g STOP))
         (returnE False))
       else
         let opcode = unat (bytecode ! p);
             opcodeName = getOpcodeName opcode
         in seqE (emit (\<lambda>i p g. TraceEventBuilder_opcodeStart i p g opcode opcodeName))
           (seqE (try_catch (executeOpcode opcode) catch_handler_error)
            emit_halt_if_halted))))"

text \<open>
  \<open>run\<close>: \<open>while (this.step()) {}\<close>.  The result is \<open>None\<close> when the loop does not end,
  otherwise the exception that left \<open>run\<close> or its normal return, with the interpreter
  as \<open>run\<close> leaves it.
\<close>

partial_function (option) run :: "Interpreter \<Rightarrow> ((JsError + unit) \<times> Interpreter) option" where
  "run c =
     (case step c of
        (Inl err, c') \<Rightarrow> Some (Inl err, c')
      | (Inr continue, c') \<Rightarrow> if continue then run c' else Some (Inr (), c'))"

declare run.simps [code]

definition getState :: "Interpreter \<Rightarrow> MachineState" where
  "getState this = i_state this"

definition getStack :: "Interpreter \<Rightarrow> Stack" where
  "getStack this = i_stack this"

definition getTrace :: "Interpreter \<Rightarrow> TraceCollector" where
  "getTrace this = i_trace this"

definition isHalted :: "Interpreter \<Rightarrow> bool" where
  "isHalted this = halted (i_state this)"

definition getHaltReason :: "Interpreter \<Rightarrow> HaltReason option" where
  "getHaltReason this = haltReason (i_state this)"


section \<open>Test set-up\<close>

text \<open>
  The configuration the integration tests build: a program, an initial gas, no calldata
  and a fresh \<open>MemoryHost\<close> (\<open>new Interpreter({ bytecode, initialGas, host })\<close>).
\<close>

definition test_config :: "byte list \<Rightarrow> bigint \<Rightarrow> InterpreterConfig" where
  "test_config bytecode initialGas =
     \<lparr>cfg_bytecode = bytecode, cfg_initialGas = initialGas, cfg_calldata = None,
      cfg_host = MemoryHost_new None\<rparr>"

text \<open>\<open>n\<close> successive calls of \<open>step()\<close> by a caller that goes on whatever a call returns.\<close>

fun step_times :: "nat \<Rightarrow> Interpreter \<Rightarrow> Interpreter" where
  "step_times 0 c = c"
| "step_times (Suc n) c = step_times n (snd (step c))"

text \<open>
  The sum of the \<open>amount\<close> fields of the \<open>gas.charge\<close> events of a trace, as the test
  ``tracks gas consumption accurately'' computes it (\<open>totalGasCharged += BigInt(event.amount)\<close>).
\<close>

fun totalGasCharged :: "TraceEvent list \<Rightarrow> bigint" where
  "totalGasCharged [] = 0"
| "totalGasCharged (TraceEvent i p g (GasCharge amount reason) # es) =
     BigInt_of_decimal amount + totalGasCharged es"
| "totalGasCharged (e # es) = totalGasCharged es"

text \<open>The program of the test ``LOG0 emits log with no topics'' (phase4.test.ts).\<close>

definition log0_test_program :: "byte list" where
  "log0_test_program =
     [0x7f, 0x48, 0x65, 0x6c, 0x6c, 0x6f] @ replicate 27 0x00
     @ [0x60, 0x00, 0x52, 0x60, 0x05, 0x60, 0x00, 0xa0, 0x00]"

text \<open>
  The program of the test ``SSTORE and SLOAD work correctly'' (phase4.test.ts): \<open>PUSH1 42,
  PUSH1 0, SSTORE, PUSH1 0, SLOAD, STOP\<close>.
\<close>

definition storage_test_program :: "byte list" where
  "storage_test_program = [0x60, 0x2a, 0x60, 0x00, 0x55, 0x60, 0x00, 0x54, 0x00]"

text \<open>
  What a caller sees of an interpreter through \<open>isHalted()\<close>, \<open>getHaltReason()\<close>,
  \<open>getState().gasRemaining\<close>, \<open>getStack().toArray()\<close> and \<open>getTrace().getEvents()\<close> (of
  each event its type and type-specific fields).
\<close>

definition observe ::
  "Interpreter \<Rightarrow> bool \<times> HaltReason option \<times> bigint \<times> Word256 list \<times> EventBody list" where
  "observe c =
     (isHalted c, getHaltReason c, gasRemaining (getState c), items (getStack c),
      map body (events (getTrace c)))"

text \<open>\<open>PUSH1 0, PUSH1 0, LOG0, STOP\<close>: a log entry with no topics and no data.\<close>

definition log0_program :: "byte list" where
  "log0_program = [0x60, 0x00, 0x60, 0x00, 0xa0, 0x00]"

section \<open>Predicates for reasoning about handlers\<close>

text \<open>
  \<open>wp m Q E c\<close>: running \<open>m\<close> on the interpreter \<open>c\<close> ends either normally with a result
  and an interpreter that satisfy \<open>Q\<close>, or with an exception and an interpreter that
  satisfy \<open>E\<close>.  \<open>keeps P m\<close>: \<open>m\<close> takes an interpreter that satisfies \<open>P\<close> to one that
  satisfies \<open>P\<close>, however it ends.
\<close>

definition wp ::
  "'a exec \<Rightarrow> ('a \<Rightarrow> Interpreter \<Rightarrow> bool) \<Rightarrow> (JsError \<Rightarrow> Interpreter \<Rightarrow> bool) \<Rightarrow> Interpreter \<Rightarrow> bool" where
  "wp m Q E c = (case m c of (Inr x, c') \<Rightarrow> Q x c' | (Inl e, c') \<Rightarrow> E e c')"

definition keeps :: "(Interpreter \<Rightarrow> bool) \<Rightarrow> 'a exec \<Rightarrow> bool" where
  "keeps P m = (\<forall>c r c'. P c \<longrightarrow> m c = (r, c') \<longrightarrow> P c')"

definition stack_field_is :: "Word256 list \<Rightarrow> Interpreter \<Rightarrow> bool" where
  "stack_field_is s c = (stack (i_state c) = s)"

section \<open>Word256: arithmetic\<close>

lemma MAX_UINT256_mask: "MAX_UINT256 = mask 256"
  by (simp add: MAX_UINT256_def mask_eq_exp_minus_1)

lemma Word256_new_mod: "Word256_new v = v mod 2 ^ 256"
  by (simp add: Word256_new_def MAX_UINT256_mask take_bit_eq_mod flip: take_bit_eq_mask)

lemma Word256_new_range: "0 \<le> Word256_new v \<and> Word256_new v \<le> MAX_UINT256"
  by (simp add: Word256_new_mod MAX_UINT256_def)

lemma Word256_new_idem: "Word256_new (Word256_new v) = Word256_new v"
  by (simp add: Word256_new_mod)

lemma Word256_new_id: "0 \<le> v \<Longrightarrow> v \<le> MAX_UINT256 \<Longrightarrow> Word256_new v = v"
  by (simp add: Word256_new_mod MAX_UINT256_def)



section \<open>Word256: conversions\<close>

lemma hex_digit_value_digit_char: "d < 16 \<Longrightarrow> hex_digit_value (digit_char d) = d"
  by (auto simp add: eval_nat_numeral less_Suc_eq hex_digit_value_def digit_char_def)

lemma is_hex_char_digit_char: "d < 16 \<Longrightarrow> is_hex_char (digit_char d)"
  by (auto simp add: eval_nat_numeral less_Suc_eq is_hex_char_def digit_char_def)

lemma BigInt_of_hex_snoc:
  "BigInt_of_hex (s @ [c]) = BigInt_of_hex s * 16 + int (hex_digit_value c)"
  by (simp add: BigInt_of_hex_def)

lemma BigInt_of_hex_nat_toString: "BigInt_of_hex (nat_toString 16 n) = int n"
proof (induction "16::nat" n rule: nat_toString.induct)
  case (1 n)
  show ?case
  proof (cases "n < 16")
    case True
    then show ?thesis
      by (simp add: nat_toString.simps [of 16 n] BigInt_of_hex_def hex_digit_value_digit_char)
  next
    case False
    then have "BigInt_of_hex (nat_toString 16 (n div 16)) = int (n div 16)"
      using 1 by simp
    moreover have "int (n div 16) * 16 + int (n mod 16) = int n" by presburger
    ultimately show ?thesis using False
      by (simp add: nat_toString.simps [of 16 n] BigInt_of_hex_snoc hex_digit_value_digit_char)
  qed
qed

lemma hex_chars_nat_toString: "list_all is_hex_char (nat_toString 16 n)"
proof (induction "16::nat" n rule: nat_toString.induct)
  case (1 n)
  show ?case
  proof (cases "n < 16")
    case True
    then show ?thesis
      by (simp add: nat_toString.simps [of 16 n] is_hex_char_digit_char)
  next
    case False
    with 1 show ?thesis
      by (simp add: nat_toString.simps [of 16 n] is_hex_char_digit_char)
  qed
qed

lemma length_nat_toString: "n < 16 ^ Suc k \<Longrightarrow> length (nat_toString 16 n) \<le> Suc k"
proof (induction k arbitrary: n)
  case 0
  then show ?case by (simp add: nat_toString.simps [of 16 n])
next
  case (Suc k)
  show ?case
  proof (cases "n < 16")
    case True
    then show ?thesis by (simp add: nat_toString.simps [of 16 n])
  next
    case False
    from Suc.prems have "n div 16 < 16 ^ Suc k"
      by (simp add: less_mult_imp_div_less mult.commute)
    then have "length (nat_toString 16 (n div 16)) \<le> Suc k" by (rule Suc.IH)
    with False show ?thesis by (simp add: nat_toString.simps [of 16 n])
  qed
qed

lemma BigInt_of_hex_zeros: "BigInt_of_hex (replicate k CHR ''0'' @ s) = BigInt_of_hex s"
proof -
  have "foldl (\<lambda>acc c. acc * 16 + int (hex_digit_value c)) 0 (replicate k CHR ''0'') = 0"
    by (induction k) (simp_all add: hex_digit_value_def)
  then show ?thesis by (simp add: BigInt_of_hex_def)
qed

lemma toHex_eq: "0 \<le> w \<Longrightarrow> w \<le> MAX_UINT256 \<Longrightarrow>
  toHex w = replicate (64 - length (nat_toString 16 (nat w))) CHR ''0'' @ nat_toString 16 (nat w)"
  by (simp add: toHex_def padStart_def bigint_toString_def)

lemma length_toHex:
  assumes "0 \<le> w" "w \<le> MAX_UINT256"
  shows "length (toHex w) = 64"
proof -
  have "nat w < 16 ^ Suc 63" using assms by (simp add: MAX_UINT256_def)
  then have "length (nat_toString 16 (nat w)) \<le> Suc 63" by (rule length_nat_toString)
  then show ?thesis using assms by (simp add: toHex_eq)
qed

lemma hex_chars_toHex:
  assumes "0 \<le> w" "w \<le> MAX_UINT256"
  shows "list_all is_hex_char (toHex w)"
  using assms hex_chars_nat_toString [of "nat w"]
  by (auto simp add: toHex_eq list_all_iff is_hex_char_def)

lemma not_startsWith_0x:
  assumes "list_all is_hex_char s"
  shows "\<not> startsWith s ''0x''"
proof
  assume "startsWith s ''0x''"
  then obtain t where "s = ''0x'' @ t"
    by (metis append_take_drop_id startsWith_def)
  with assms show False by (simp add: is_hex_char_def)
qed

lemma fromHex_toHex:
  assumes "0 \<le> w" "w \<le> MAX_UINT256"
  shows "Word256_fromHex (toHex w) = Inr w"
proof -
  have h: "list_all is_hex_char (toHex w)" using assms by (rule hex_chars_toHex)
  have n: "toHex w \<noteq> []" using length_toHex [OF assms] by auto
  have "BigInt_of_hex (toHex w) = w"
    using assms by (simp add: toHex_eq BigInt_of_hex_zeros BigInt_of_hex_nat_toString)
  then show ?thesis
    using h n not_startsWith_0x [OF h] assms
    by (simp add: Word256_fromHex_def Word256_new_mod MAX_UINT256_def)
qed

lemma length_toBytes_loop: "length (toBytes_loop n v bs) = length bs"
  by (induction n arbitrary: v bs) simp_all

lemma drop_toBytes_loop: "drop n (toBytes_loop n v bs) = drop n bs"
proof (induction n arbitrary: v bs)
  case 0
  then show ?case by simp
next
  case (Suc n)
  have "drop (Suc n) (toBytes_loop (Suc n) v bs)
        = drop 1 (drop n (toBytes_loop n (drop_bit 8 v) (bs[n := word_of_int (v AND 255)])))"
    by simp
  also have "\<dots> = drop 1 (drop n (bs[n := word_of_int (v AND 255)]))"
    by (simp only: Suc.IH)
  also have "\<dots> = drop (Suc n) bs" by simp
  finally show ?case .
qed

lemma nth_toBytes_loop:
  "i < n \<Longrightarrow> n \<le> length bs \<Longrightarrow>
   toBytes_loop n v bs ! i = word_of_int (drop_bit (8 * (n - 1 - i)) v AND 255)"
proof (induction n arbitrary: v bs)
  case 0
  then show ?case by simp
next
  case (Suc n)
  let ?bs = "bs[n := word_of_int (v AND 255)]"
  show ?case
  proof (cases "i < n")
    case True
    then have "toBytes_loop n (drop_bit 8 v) ?bs ! i
               = word_of_int (drop_bit (8 * (n - 1 - i)) (drop_bit 8 v) AND 255)"
      using Suc.prems by (intro Suc.IH) simp_all
    moreover have "8 * (n - 1 - i) + 8 = 8 * (n - i)" using True by simp
    ultimately show ?thesis by (simp add: drop_bit_drop_bit add.commute)
  next
    case False
    then have i: "i = n" using Suc.prems by simp
    have "toBytes_loop n (drop_bit 8 v) ?bs ! n = hd (drop n (toBytes_loop n (drop_bit 8 v) ?bs))"
      using Suc.prems by (simp add: hd_drop_conv_nth length_toBytes_loop)
    also have "\<dots> = hd (drop n ?bs)" by (simp only: drop_toBytes_loop)
    also have "\<dots> = word_of_int (v AND 255)"
      using Suc.prems by (simp add: hd_drop_conv_nth)
    finally show ?thesis using i by simp
  qed
qed

lemma take_bit_Suc8:
  "take_bit (8 * n + 8) (v::int) = push_bit 8 (take_bit (8 * n) (drop_bit 8 v)) OR take_bit 8 v"
  by (rule bit_eqI) (auto simp add: bit_simps)

lemma foldl_toBytes_loop:
  "n \<le> length bs \<Longrightarrow>
   foldl (\<lambda>v b. push_bit 8 v OR uint b) acc (take n (toBytes_loop n v bs))
     = push_bit (8 * n) acc OR take_bit (8 * n) v"
proof (induction n arbitrary: v bs)
  case 0
  then show ?case by simp
next
  case (Suc n)
  let ?b = "word_of_int (v AND 255) :: byte"
  let ?R = "toBytes_loop n (drop_bit 8 v) (bs[n := ?b])"
  have len: "n < length ?R" using Suc.prems by (simp add: length_toBytes_loop)
  have "?R ! n = hd (drop n ?R)" using len by (simp add: hd_drop_conv_nth)
  also have "\<dots> = hd (drop n (bs[n := ?b]))" by (simp only: drop_toBytes_loop)
  also have "\<dots> = ?b" using Suc.prems by (simp add: hd_drop_conv_nth)
  finally have nth: "?R ! n = ?b" .
  have ub: "uint ?b = take_bit 8 v"
    by (simp add: uint_word_of_int_eq take_bit_eq_mask mask_eq_exp_minus_1)
  have "foldl (\<lambda>v b. push_bit 8 v OR uint b) acc (take (Suc n) (toBytes_loop (Suc n) v bs))
        = push_bit 8 (foldl (\<lambda>v b. push_bit 8 v OR uint b) acc (take n ?R)) OR uint (?R ! n)"
    using len by (simp add: take_Suc_conv_app_nth)
  also have "\<dots> = push_bit 8 (push_bit (8 * n) acc OR take_bit (8 * n) (drop_bit 8 v)) OR take_bit 8 v"
    using Suc.prems by (simp add: Suc.IH nth ub)
  also have "\<dots> = push_bit (8 * Suc n) acc OR take_bit (8 * Suc n) v"
    by (rule bit_eqI) (auto simp add: bit_simps)
  finally show ?case .
qed

lemma fromBytes_toBytes:
  assumes "0 \<le> w" "w \<le> MAX_UINT256"
  shows "Word256_fromBytes (toBytes w) = Inr w"
proof -
  have "foldl (\<lambda>v b. push_bit 8 v OR uint b) 0 (take 32 (toBytes_loop 32 w (replicate 32 0)))
        = push_bit (8 * 32) 0 OR take_bit (8 * 32) w"
    by (rule foldl_toBytes_loop) simp
  moreover have "take 32 (toBytes_loop 32 w (replicate 32 0)) = toBytes_loop 32 w (replicate 32 0)"
    by (simp add: length_toBytes_loop)
  ultimately have "foldl (\<lambda>v b. push_bit 8 v OR uint b) 0 (toBytes w) = take_bit 256 w"
    by (simp add: toBytes_def)
  then show ?thesis
    using assms
    by (simp add: Word256_fromBytes_def toBytes_def length_toBytes_loop Word256_new_mod
        take_bit_eq_mod MAX_UINT256_def)
qed


text \<open>
  Claim C6.  For every Word256 \<open>w\<close> (every value the masking constructor builds),
  \<open>fromBytes(toBytes(w)) = w\<close> and \<open>fromHex(toHex(w)) = w\<close>; \<open>toBytes\<close> returns exactly 32
  bytes in big-endian order (byte \<open>i\<close> holds bits \<open>8 * (31 - i)\<close> and up), and \<open>toHex\<close> returns
  64 characters: the hexadecimal digits of the value, padded with zeros on the left.
\<close>

theorem Word256_bytes_hex_roundtrip:
  "Word256_fromBytes (toBytes (Word256_new v)) = Inr (Word256_new v)
   \<and> Word256_fromHex (toHex (Word256_new v)) = Inr (Word256_new v)
   \<and> length (toBytes (Word256_new v)) = 32
   \<and> (\<forall>i<32. toBytes (Word256_new v) ! i
                 = word_of_int (drop_bit (8 * (31 - i)) (Word256_new v) AND 255))
   \<and> length (toHex (Word256_new v)) = 64
   \<and> list_all is_hex_char (toHex (Word256_new v))
   \<and> toHex (Word256_new v)
       = replicate (64 - length (bigint_toString 16 (Word256_new v))) CHR ''0''
         @ bigint_toString 16 (Word256_new v)"
proof -
  let ?w = "Word256_new v"
  have r: "0 \<le> ?w" "?w \<le> MAX_UINT256" using Word256_new_range [of v] by simp_all
  have "Word256_fromBytes (toBytes ?w) = Inr ?w" using r by (rule fromBytes_toBytes)
  moreover have "Word256_fromHex (toHex ?w) = Inr ?w" using r by (rule fromHex_toHex)
  moreover have "length (toBytes ?w) = 32" by (simp add: toBytes_def length_toBytes_loop)
  moreover have "\<forall>i<32. toBytes ?w ! i = word_of_int (drop_bit (8 * (31 - i)) ?w AND 255)"
    by (simp add: toBytes_def nth_toBytes_loop)
  moreover have "length (toHex ?w) = 64" using r by (rule length_toHex)
  moreover have "list_all is_hex_char (toHex ?w)" using r by (rule hex_chars_toHex)
  moreover have "toHex ?w = replicate (64 - length (bigint_toString 16 ?w)) CHR ''0''
                            @ bigint_toString 16 ?w"
    by (simp add: toHex_def padStart_def)
  ultimately show ?thesis by blast
qed

theorem Word256_bytes_hex_roundtrip_witness:
  "(31::nat) < 32
   \<and> toBytes (Word256_new 258) ! 31 = 2 \<and> toBytes (Word256_new 258) ! 30 = 1
   \<and> Word256_fromBytes (toBytes (Word256_new 258)) = Inr 258
   \<and> Word256_fromHex (toHex (Word256_new 258)) = Inr 258"
proof -
  have w: "Word256_new 258 = 258" by (simp add: Word256_new_mod)
  have a: "Word256_fromBytes (toBytes (Word256_new 258)) = Inr (Word256_new 258)"
    and b: "Word256_fromHex (toHex (Word256_new 258)) = Inr (Word256_new 258)"
    and c: "\<forall>i<32. toBytes (Word256_new 258) ! i
                 = word_of_int (drop_bit (8 * (31 - i)) (Word256_new 258) AND 255)"
    using Word256_bytes_hex_roundtrip [of 258] by blast+
  have "toBytes (Word256_new 258) ! 31 = 2" using c [rule_format, of 31] by (simp add: w)
  moreover have "toBytes (Word256_new 258) ! 30 = 1"
    using c [rule_format, of 30] by (simp add: w drop_bit_eq_div)
  ultimately show ?thesis using a b by (simp add: w)
qed

section \<open>MachineState: gas charging\<close>

text \<open>
  Claim C8.  Gas charging is atomic.  If the amount exceeds \<open>gasRemaining\<close>, \<open>chargeGas\<close>
  marks the state halted with \<open>OUT_OF_GAS\<close>, leaves \<open>gasRemaining\<close> (and every other
  field) unchanged and throws, so that the rest of the handler that called it is not
  executed.  Otherwise it decreases \<open>gasRemaining\<close> by exactly the amount, changes nothing
  else (an unhalted state remains unhalted) and returns.
\<close>

theorem chargeGas_atomic:
  "(gasRemaining s < amount \<longrightarrow>
      chargeGas amount s
        = (Inl (Error ''Out of gas''), s\<lparr>halted := True, haltReason := Some OUT_OF_GAS\<rparr>)
      \<and> gasRemaining (snd (chargeGas amount s)) = gasRemaining s
      \<and> seqE (state_chargeGas amount) rest (c\<lparr>i_state := s\<rparr>)
          = (Inl (Error ''Out of gas''),
             c\<lparr>i_state := s\<lparr>halted := True, haltReason := Some OUT_OF_GAS\<rparr>\<rparr>))
   \<and> (\<not> gasRemaining s < amount \<longrightarrow>
      chargeGas amount s = (Inr (), s\<lparr>gasRemaining := gasRemaining s - amount\<rparr>)
      \<and> gasRemaining (snd (chargeGas amount s)) = gasRemaining s - amount
      \<and> halted (snd (chargeGas amount s)) = halted s
      \<and> haltReason (snd (chargeGas amount s)) = haltReason s)"
  by (simp add: chargeGas_def halt_def seqE_def bindE_def state_chargeGas_def on_state_def)

theorem chargeGas_atomic_witness:
  "gasRemaining (MachineState_new 5) < 7
   \<and> chargeGas 7 (MachineState_new 5)
       = (Inl (Error ''Out of gas''),
          (MachineState_new 5)\<lparr>halted := True, haltReason := Some OUT_OF_GAS\<rparr>)
   \<and> gasRemaining (snd (chargeGas 7 (MachineState_new 5))) = 5
   \<and> \<not> gasRemaining (MachineState_new 5) < 3
   \<and> gasRemaining (snd (chargeGas 3 (MachineState_new 5))) = 2
   \<and> \<not> halted (snd (chargeGas 3 (MachineState_new 5)))"
  using chargeGas_atomic [of "MachineState_new 5" 7 "returnE ()" "Interpreter_new (test_config [] 5)"]
    chargeGas_atomic [of "MachineState_new 5" 3 "returnE ()" "Interpreter_new (test_config [] 5)"]
  by (simp add: MachineState_new_def)

section \<open>Interpreter: the implicit terminator and halted machines\<close>

text \<open>
  Claim C9.  For a machine that is not halted and whose PC is at or beyond the end of the
  bytecode, \<open>step\<close> halts the state with reason \<open>STOP\<close> (not \<open>INVALID_OPCODE\<close>), records one
  \<open>Halt\<close> event with reason \<open>STOP\<close> as the last event of the trace, changes nothing else and
  returns false.  For a machine that is already halted, \<open>step\<close> returns false and changes
  neither the state nor the trace.
\<close>

theorem step_past_end_stops_and_halted_is_noop:
  "(\<not> halted (i_state c) \<and> pc (i_state c) \<ge> length (i_bytecode c) \<longrightarrow>
      step c =
        (Inr False,
         c\<lparr>i_state := (i_state c)\<lparr>halted := True, haltReason := Some STOP\<rparr>,
           i_trace := (i_trace c)
             \<lparr>events := events (i_trace c)
                  @ [TraceEvent (nextIndex (i_trace c)) (pc (i_state c))
                       (gasRemaining (i_state c)) (Halt STOP)],
              nextIndex := nextIndex (i_trace c) + 1\<rparr>\<rparr>))
   \<and> (halted (i_state c) \<longrightarrow> step c = (Inr False, c))"
  by (simp add: step_def bindE_def seqE_def returnE_def get_halted_def get_pc_def
      get_bytecode_def get_gasRemaining_def state_halt_def halt_def emit_def
      trace_getNextIndex_def getNextIndex_def trace_record_def record_event_def
      TraceEventBuilder_halt_def)

theorem step_past_end_stops_and_halted_is_noop_witness:
  "\<not> halted (i_state (Interpreter_new (test_config [] 10)))
   \<and> pc (i_state (Interpreter_new (test_config [] 10)))
       \<ge> length (i_bytecode (Interpreter_new (test_config [] 10)))
   \<and> fst (step (Interpreter_new (test_config [] 10))) = Inr False
   \<and> haltReason (i_state (snd (step (Interpreter_new (test_config [] 10))))) = Some STOP
   \<and> events (i_trace (snd (step (Interpreter_new (test_config [] 10)))))
       = [TraceEvent 0 0 10 (Halt STOP)]
   \<and> halted (i_state (snd (step (Interpreter_new (test_config [] 10)))))
   \<and> step (snd (step (Interpreter_new (test_config [] 10))))
       = (Inr False, snd (step (Interpreter_new (test_config [] 10))))"
proof -
  let ?c = "Interpreter_new (test_config [] 10)"
  have a: "\<not> halted (i_state ?c) \<and> pc (i_state ?c) \<ge> length (i_bytecode ?c)"
    by (simp add: Interpreter_new_def test_config_def MachineState_new_def)
  have s: "step ?c =
        (Inr False,
         ?c\<lparr>i_state := (i_state ?c)\<lparr>halted := True, haltReason := Some STOP\<rparr>,
            i_trace := (i_trace ?c)
              \<lparr>events := events (i_trace ?c)
                   @ [TraceEvent (nextIndex (i_trace ?c)) (pc (i_state ?c))
                        (gasRemaining (i_state ?c)) (Halt STOP)],
               nextIndex := nextIndex (i_trace ?c) + 1\<rparr>\<rparr>)"
    using step_past_end_stops_and_halted_is_noop [of ?c] a by blast
  have h: "halted (i_state (snd (step ?c)))" by (simp add: s)
  have n: "step (snd (step ?c)) = (Inr False, snd (step ?c))"
    using step_past_end_stops_and_halted_is_noop [of "snd (step ?c)"] h by blast
  have e: "events (i_trace (snd (step ?c))) = [TraceEvent 0 0 10 (Halt STOP)]"
    by (simp add: s) (simp add: Interpreter_new_def test_config_def MachineState_new_def
        TraceCollector_new_def)
  show ?thesis using a h n e by (simp add: s)
qed

section \<open>Executions of test programs\<close>

text \<open>
  Claim C1 (the interpreter never raises an error to its caller; \<open>run()\<close> always returns
  normally, also for bytecode with \<open>LOG0\<close> .. \<open>LOG4\<close>).  On \<open>PUSH1 0, PUSH1 0, LOG0, STOP\<close>
  with a fresh in-memory host, \<open>run\<close> does not return normally: the \<open>TypeError\<close> of
  calling the missing \<open>TraceEventBuilder.log\<close> leaves \<open>step\<close> and \<open>run\<close>.  The log entry
  has reached the host, the gas is charged, an event index is used up and no event
  recorded for it; the state is not halted, so nothing of the failure shows in
  \<open>getHaltReason\<close>.
\<close>

theorem run_LOG0_raises_TypeError:
  "map_option (\<lambda>(r, c). (r, observe c, nextIndex (getTrace c), length (logs (i_host c))))
     (run (Interpreter_new (test_config log0_program 1000000)))
   = Some
      (Inl (TypeError ''TraceEventBuilder.log is not a function''),
       (False, None, 999619, [],
        [OpcodeStart 96 ''PUSH1'', GasCharge ''3'' ''PUSH1'',
         StackPush ''0x0000000000000000000000000000000000000000000000000000000000000000'',
         OpcodeStart 96 ''PUSH1'', GasCharge ''3'' ''PUSH1'',
         StackPush ''0x0000000000000000000000000000000000000000000000000000000000000000'',
         OpcodeStart 160 ''LOG0'']),
       8, 1)"
  by code_simp

text \<open>
  Claim C2 (the amounts of the \<open>GasCharge\<close> events add up to \<open>initialGas - gasRemaining\<close>
  at halt, also with \<open>SLOAD\<close>, \<open>SSTORE\<close> or \<open>LOG\<close>).  On the program of the test ``SSTORE and
  SLOAD work correctly'', the run halts with \<open>STOP\<close> having consumed 20209 gas (three
  \<open>PUSH1\<close>, 20000 for the \<open>SSTORE\<close>, 200 for the \<open>SLOAD\<close>), while the \<open>GasCharge\<close> events of
  its trace add up to 9: \<open>executeSSTORE\<close> and \<open>executeSLOAD\<close> charge gas and record no
  \<open>GasCharge\<close> event.
\<close>

theorem run_storage_gas_not_in_trace:
  "map_option
     (\<lambda>(r, c). (r, getHaltReason c, 1000000 - gasRemaining (getState c),
                 totalGasCharged (events (getTrace c))))
     (run (Interpreter_new (test_config storage_test_program 1000000)))
   = Some (Inr (), Some STOP, 20209, 9)"
  by code_simp

text \<open>
  Claim C3 (every opcode records its baseline \<open>GasCharge\<close> first, then one \<open>StackPop\<close> per
  popped input, then dynamic charges and side effects, then its \<open>StackPush\<close> events).  In the
  same program the third call of \<open>step\<close> executes \<open>SSTORE\<close>: it pops two words (the stack
  goes from \<open>[42, 0]\<close> to empty) and charges 20000 gas, and all it adds to the trace is the
  \<open>OpcodeStart\<close> of \<open>step\<close> and one \<open>StorageWrite\<close>: no \<open>GasCharge\<close> and no \<open>StackPop\<close>.
\<close>

theorem step_SSTORE_records_no_gas_or_pop_events:
  "observe (step_times 2 (Interpreter_new (test_config storage_test_program 1000000)))
   = (False, None, 999994, [42, 0],
      [OpcodeStart 96 ''PUSH1'', GasCharge ''3'' ''PUSH1'',
       StackPush ''0x000000000000000000000000000000000000000000000000000000000000002a'',
       OpcodeStart 96 ''PUSH1'', GasCharge ''3'' ''PUSH1'',
       StackPush ''0x0000000000000000000000000000000000000000000000000000000000000000''])
   \<and> observe (step_times 3 (Interpreter_new (test_config storage_test_program 1000000)))
   = (False, None, 979994, [],
      [OpcodeStart 96 ''PUSH1'', GasCharge ''3'' ''PUSH1'',
       StackPush ''0x000000000000000000000000000000000000000000000000000000000000002a'',
       OpcodeStart 96 ''PUSH1'', GasCharge ''3'' ''PUSH1'',
       StackPush ''0x0000000000000000000000000000000000000000000000000000000000000000'',
       OpcodeStart 85 ''SSTORE'',
       StorageWrite ''0x0000000000000000000000000000000000000000''
         ''0x0000000000000000000000000000000000000000000000000000000000000000''
         ''0x000000000000000000000000000000000000000000000000000000000000002a''])"
  by code_simp

section \<open>Rules for \<open>wp\<close> and \<open>keeps\<close>\<close>

lemma wp_result:
  "wp m Q E c \<Longrightarrow> m c = (r, c') \<Longrightarrow> (case r of Inr x \<Rightarrow> Q x c' | Inl e \<Rightarrow> E e c')"
  by (simp add: wp_def split: sum.splits)

lemma wp_bindE [simp]: "wp (bindE m f) Q E = wp m (\<lambda>x. wp (f x) Q E) E"
  by (rule ext) (simp add: wp_def bindE_def split: prod.splits sum.splits)

lemma wp_seqE [simp]: "wp (seqE m n) Q E = wp m (\<lambda>x. wp n Q E) E"
  by (simp add: seqE_def)

lemma wp_returnE [simp]: "wp (returnE x) Q E c = Q x c"
  by (simp add: wp_def returnE_def)

lemma wp_throwE [simp]: "wp (throwE e) Q E c = E e c"
  by (simp add: wp_def throwE_def)

lemma wp_whenE [simp]: "wp (whenE b m) Q E c = (if b then wp m Q E c else Q () c)"
  by (simp add: whenE_def)

lemma wp_if: "wp (if b then m else n) Q E c = (if b then wp m Q E c else wp n Q E c)"
  by simp

lemma wp_try_catch [simp]: "wp (try_catch m h) Q E = wp m Q (\<lambda>e. wp (h e) Q E)"
  by (rule ext) (simp add: wp_def try_catch_def split: prod.splits sum.splits)

lemma wp_on_state:
  "wp (on_state f) Q E c =
     (case f (i_state c) of (Inr x, s') \<Rightarrow> Q x (c\<lparr>i_state := s'\<rparr>)
                          | (Inl e, s') \<Rightarrow> E e (c\<lparr>i_state := s'\<rparr>))"
  by (simp add: wp_def on_state_def split: prod.splits sum.splits)

lemma wp_on_stack:
  "wp (on_stack f) Q E c =
     (case f (i_stack c) of (Inr x, s') \<Rightarrow> Q x (c\<lparr>i_stack := s'\<rparr>)
                          | (Inl e, s') \<Rightarrow> E e (c\<lparr>i_stack := s'\<rparr>))"
  by (simp add: wp_def on_stack_def split: prod.splits sum.splits)

lemma wp_state_chargeGas [simp]:
  "wp (state_chargeGas amount) Q E c =
     (if gasRemaining (i_state c) < amount
      then E (Error ''Out of gas'') (c\<lparr>i_state := halt OUT_OF_GAS (i_state c)\<rparr>)
      else Q () (c\<lparr>i_state := (i_state c)\<lparr>gasRemaining := gasRemaining (i_state c) - amount\<rparr>\<rparr>))"
  by (simp add: state_chargeGas_def wp_on_state chargeGas_def)

lemma wp_state_halt [simp]:
  "wp (state_halt reason) Q E c = Q () (c\<lparr>i_state := halt reason (i_state c)\<rparr>)"
  by (simp add: wp_def state_halt_def)

lemma wp_set_pc [simp]:
  "wp (set_pc p) Q E c = Q () (c\<lparr>i_state := (i_state c)\<lparr>pc := p\<rparr>\<rparr>)"
  by (simp add: wp_def set_pc_def)

lemma wp_advance_pc [simp]:
  "wp (advance_pc n) Q E c = Q () (c\<lparr>i_state := (i_state c)\<lparr>pc := pc (i_state c) + n\<rparr>\<rparr>)"
  by (simp add: wp_def advance_pc_def)

lemma wp_set_returnData [simp]:
  "wp (set_returnData d) Q E c = Q () (c\<lparr>i_state := (i_state c)\<lparr>returnData := d\<rparr>\<rparr>)"
  by (simp add: wp_def set_returnData_def)

lemma wp_get_pc [simp]: "wp get_pc Q E c = Q (pc (i_state c)) c"
  by (simp add: wp_def get_pc_def)

lemma wp_get_gasRemaining [simp]: "wp get_gasRemaining Q E c = Q (gasRemaining (i_state c)) c"
  by (simp add: wp_def get_gasRemaining_def)

lemma wp_get_halted [simp]: "wp get_halted Q E c = Q (halted (i_state c)) c"
  by (simp add: wp_def get_halted_def)

lemma wp_get_haltReason [simp]: "wp get_haltReason Q E c = Q (haltReason (i_state c)) c"
  by (simp add: wp_def get_haltReason_def)

lemma wp_state_getMemorySize [simp]:
  "wp state_getMemorySize Q E c = Q (length (memory (i_state c))) c"
  by (simp add: wp_def state_getMemorySize_def getMemorySize_def)

lemma wp_get_bytecode [simp]: "wp get_bytecode Q E c = Q (i_bytecode c) c"
  by (simp add: wp_def get_bytecode_def)

lemma wp_get_calldata [simp]: "wp get_calldata Q E c = Q (i_calldata c) c"
  by (simp add: wp_def get_calldata_def)

lemma wp_get_validJumpDests [simp]: "wp get_validJumpDests Q E c = Q (i_validJumpDests c) c"
  by (simp add: wp_def get_validJumpDests_def)

lemma wp_host_getAddress [simp]: "wp host_getAddress Q E c = Q (address (i_host c)) c"
  by (simp add: wp_def host_getAddress_def getAddress_def)

lemma wp_host_sload [simp]: "wp (host_sload a key) Q E c = Q (sload a key (i_host c)) c"
  by (simp add: wp_def host_sload_def)

lemma wp_host_sstore [simp]:
  "wp (host_sstore a key v) Q E c = Q () (c\<lparr>i_host := sstore a key v (i_host c)\<rparr>)"
  by (simp add: wp_def host_sstore_def)

lemma wp_host_log_entry [simp]:
  "wp (host_log_entry entry) Q E c = Q () (c\<lparr>i_host := host_log entry (i_host c)\<rparr>)"
  by (simp add: wp_def host_log_entry_def)

lemma wp_stack_push [simp]:
  "wp (stack_push v) Q E c =
     (if length (items (i_stack c)) \<ge> 1024
      then E (StackError ''Stack overflow: cannot push beyond 1024 items'') c
      else Q () (c\<lparr>i_stack := (i_stack c)\<lparr>items := items (i_stack c) @ [v]\<rparr>\<rparr>))"
  by (simp add: stack_push_def wp_on_stack Stack_push_def MAX_STACK_DEPTH_def)

lemma wp_stack_pop [simp]:
  "wp stack_pop Q E c =
     (if items (i_stack c) = []
      then E (StackError ''Stack underflow: cannot pop from empty stack'') c
      else Q (last (items (i_stack c)))
             (c\<lparr>i_stack := (i_stack c)\<lparr>items := butlast (items (i_stack c))\<rparr>\<rparr>))"
  by (simp add: stack_pop_def wp_on_stack Stack_pop_def)

lemma wp_trace_getNextIndex [simp]:
  "wp trace_getNextIndex Q E c =
     Q (nextIndex (i_trace c)) (c\<lparr>i_trace := (i_trace c)\<lparr>nextIndex := nextIndex (i_trace c) + 1\<rparr>\<rparr>)"
  by (simp add: wp_def trace_getNextIndex_def getNextIndex_def)

lemma wp_trace_record [simp]:
  "wp (trace_record event) Q E c =
     Q () (c\<lparr>i_trace := (i_trace c)\<lparr>events := events (i_trace c) @ [event]\<rparr>\<rparr>)"
  by (simp add: wp_def trace_record_def record_event_def)

lemma wp_emit [simp]:
  "wp (emit builder) Q E c =
     Q () (c\<lparr>i_trace := (i_trace c)
              \<lparr>nextIndex := nextIndex (i_trace c) + 1,
               events := events (i_trace c)
                   @ [builder (nextIndex (i_trace c)) (pc (i_state c)) (gasRemaining (i_state c))]\<rparr>\<rparr>)"
  by (simp add: emit_def)

text \<open>Composition rules for \<open>keeps\<close>.\<close>

lemma keepsD: "keeps P m \<Longrightarrow> P c \<Longrightarrow> m c = (r, c') \<Longrightarrow> P c'"
  unfolding keeps_def by blast

lemma keeps_bindE:
  assumes "keeps P m" and "\<And>x. keeps P (f x)"
  shows "keeps P (bindE m f)"
  unfolding keeps_def
proof (intro allI impI)
  fix c r c'
  assume P: "P c" and run: "bindE m f c = (r, c')"
  obtain r1 c1 where m: "m c = (r1, c1)" by (cases "m c")
  have P1: "P c1" using assms(1) P m by (rule keepsD)
  show "P c'"
  proof (cases r1)
    case (Inl e)
    then show ?thesis using run m P1 by (simp add: bindE_def)
  next
    case (Inr x)
    then have "f x c1 = (r, c')" using run m by (simp add: bindE_def)
    with assms(2) P1 show ?thesis by (rule keepsD)
  qed
qed

lemma keeps_seqE: "keeps P m \<Longrightarrow> keeps P n \<Longrightarrow> keeps P (seqE m n)"
  by (simp add: seqE_def keeps_bindE)

lemma keeps_returnE: "keeps P (returnE x)"
  by (simp add: keeps_def returnE_def)

lemma keeps_throwE: "keeps P (throwE e)"
  by (simp add: keeps_def throwE_def)

lemma keeps_whenE: "keeps P m \<Longrightarrow> keeps P (whenE b m)"
  by (simp add: whenE_def keeps_returnE)

lemma keeps_if: "keeps P m \<Longrightarrow> keeps P n \<Longrightarrow> keeps P (if b then m else n)"
  by simp

lemma keeps_try_catch:
  assumes "keeps P m" and "\<And>e. keeps P (h e)"
  shows "keeps P (try_catch m h)"
  unfolding keeps_def
proof (intro allI impI)
  fix c r c'
  assume P: "P c" and run: "try_catch m h c = (r, c')"
  obtain r1 c1 where m: "m c = (r1, c1)" by (cases "m c")
  have P1: "P c1" using assms(1) P m by (rule keepsD)
  show "P c'"
  proof (cases r1)
    case (Inl e)
    then have "h e c1 = (r, c')" using run m by (simp add: try_catch_def)
    with assms(2) P1 show ?thesis by (rule keepsD)
  next
    case (Inr x)
    then show ?thesis using run m P1 by (simp add: try_catch_def)
  qed
qed

lemma keeps_getters:
  "keeps P get_pc" "keeps P get_gasRemaining" "keeps P get_halted" "keeps P get_haltReason"
  "keeps P state_getMemorySize" "keeps P get_bytecode" "keeps P get_calldata"
  "keeps P get_validJumpDests" "keeps P host_getAddress" "keeps P (host_sload a key)"
  by (simp_all add: keeps_def get_pc_def get_gasRemaining_def get_halted_def get_haltReason_def
      state_getMemorySize_def get_bytecode_def get_calldata_def get_validJumpDests_def
      host_getAddress_def host_sload_def)


end
